theory Spec2Isabelle
  imports Complex_Main "HOL-Library.Char_ord" "HOL-Library.List_Lexorder" "HOL-Library.AList"
    "HOL-Library.Multiset"
begin

section \<open>Data model\<close>

text \<open>
  The development follows \<^verbatim>\<open>i.hyper.indices.py\<close>: the class \<^verbatim>\<open>SpectralIndex\<close>, the
  class \<^verbatim>\<open>HyperspectralIndices\<close> with its database of indices, and the calculation part of
  \<^verbatim>\<open>main\<close>. Wavelengths are Python numbers (the ranges of the database are integers, the
  wavelengths of the command line are parsed by \<^verbatim>\<open>float\<close>); they are read here as exact
  reals. Strings are ASCII.

  Exceptions raised by the Python are values of \<open>py_error\<close>: \<open>KeyError\<close> for a missing
  dictionary key, \<open>ValueError\<close> for \<^verbatim>\<open>min\<close> of an empty sequence, \<open>Fatal\<close> for
  \<^verbatim>\<open>gs.fatal\<close>.
\<close>

datatype py_error = KeyError | ValueError | Fatal

text \<open>
  A value of the dictionary \<^verbatim>\<open>bands_required\<close>: a tuple \<^verbatim>\<open>(min, max)\<close>, or a single
  wavelength (the branch taken when \<^verbatim>\<open>isinstance(wavelength_range, tuple)\<close> is false).
\<close>

datatype wl_req = RangeReq real real | SingleReq real

text \<open>
  Every formula of the database is a lambda whose body is one f-string, and every
  replacement field of these f-strings is a subscript \<^verbatim>\<open>b['ROLE']\<close> of the argument. A formula
  is therefore the list of the pieces of its f-string, in order.
\<close>

datatype piece = Lit string | Band string

text \<open>
  The class \<^verbatim>\<open>SpectralIndex\<close>. The field \<^verbatim>\<open>reference\<close> (a citation, printed by the listing
  only) is left out.
\<close>

record SpectralIndex =
  name :: string
  description :: string
  formula :: "piece list"
  bands_required :: "(string \<times> wl_req) list"
  theme :: string
  normalize_range :: "(int \<times> int) option"

text \<open>
  A Python dictionary is an association list in insertion order; \<^verbatim>\<open>d[k] = v\<close> is
  \<^const>\<open>AList.update\<close> (the value is replaced in place when the key is present, the pair is
  appended otherwise), \<^verbatim>\<open>d.get(k)\<close> is \<^const>\<open>map_of\<close>, \<^verbatim>\<open>d.keys()\<close> is \<open>map fst\<close>.
  \<^verbatim>\<open>dict(pairs)\<close> assigns the pairs from left to right.
\<close>

definition dict_of :: "('k \<times> 'v) list \<Rightarrow> ('k \<times> 'v) list" where
  "dict_of pairs = fold (\<lambda>(k, v). AList.update k v) pairs []"

section \<open>Strings\<close>

definition lower_letters :: string where
  "lower_letters = ''abcdefghijklmnopqrstuvwxyz''"

definition upper_letters :: string where
  "upper_letters = ''ABCDEFGHIJKLMNOPQRSTUVWXYZ''"

definition upper_char :: "char \<Rightarrow> char" where
  "upper_char c = (case map_of (zip lower_letters upper_letters) c of Some u \<Rightarrow> u | None \<Rightarrow> c)"

definition lower_char :: "char \<Rightarrow> char" where
  "lower_char c = (case map_of (zip upper_letters lower_letters) c of Some l \<Rightarrow> l | None \<Rightarrow> c)"

text \<open>\<^verbatim>\<open>str.upper\<close> and \<^verbatim>\<open>str.lower\<close>, on ASCII.\<close>

definition upper :: "string \<Rightarrow> string" where
  "upper s = map upper_char s"

definition lower :: "string \<Rightarrow> string" where
  "lower s = map lower_char s"

text \<open>\<^verbatim>\<open>str.isspace\<close> of one ASCII character, and \<^verbatim>\<open>str.strip()\<close>.\<close>

definition isspace :: "char \<Rightarrow> bool" where
  "isspace c = (c \<in> set [CHR '' '', CHR 0x09, CHR 0x0A, CHR 0x0B, CHR 0x0C, CHR 0x0D,
                          CHR 0x1C, CHR 0x1D, CHR 0x1E, CHR 0x1F])"

definition strip :: "string \<Rightarrow> string" where
  "strip s = rev (dropWhile isspace (rev (dropWhile isspace s)))"

text \<open>\<^verbatim>\<open>s.split(sep)\<close> for a separator of one character; \<open>cur\<close> is the piece being read.\<close>

fun split_from :: "char \<Rightarrow> string \<Rightarrow> string \<Rightarrow> string list" where
  "split_from sep cur [] = [cur]"
| "split_from sep cur (c # cs) =
     (if c = sep then cur # split_from sep [] cs else split_from sep (cur @ [c]) cs)"

definition split :: "char \<Rightarrow> string \<Rightarrow> string list" where
  "split sep s = split_from sep [] s"

text \<open>\<^verbatim>\<open>sub in s\<close> on strings.\<close>

fun contains :: "string \<Rightarrow> string \<Rightarrow> bool" where
  "contains sub [] = (sub = [])"
| "contains sub (c # cs) = (take (length sub) (c # cs) = sub \<or> contains sub cs)"

text \<open>\<^verbatim>\<open>str\<close> of a Python integer, as an f-string prints it.\<close>

definition digit_char :: "nat \<Rightarrow> char" where
  "digit_char d = ''0123456789'' ! d"

function str_nat :: "nat \<Rightarrow> string" where
  "str_nat n = (if n < 10 then [digit_char n] else str_nat (n div 10) @ [digit_char (n mod 10)])"
  by pat_completeness auto
termination
  by (relation "measure id") auto

definition str_int :: "int \<Rightarrow> string" where
  "str_int i = (if i < 0 then CHR ''-'' # str_nat (nat (- i)) else str_nat (nat i))"

section \<open>The database of indices\<close>

text \<open>
  The entries of \<^verbatim>\<open>_initialize_indices\<close>, in the order of their assignments. The keys of
  the assignments are pairwise different, so the dictionary holds them in this order.
\<close>

definition idx_NDVI :: SpectralIndex where
  "idx_NDVI = \<lparr>
     name = ''NDVI'',
     description = ''Normalized Difference Vegetation Index'',
     formula =
       [Lit ''float('', Band ''NIR'', Lit '' - '', Band ''RED'', Lit '') / ('', Band ''NIR'',
        Lit '' + '', Band ''RED'', Lit '')''],
     bands_required = [(''RED'', RangeReq 620 690), (''NIR'', RangeReq 760 900)],
     theme = ''vegetation'',
     normalize_range = Some (- 1, 1)\<rparr>"

definition idx_EVI :: SpectralIndex where
  "idx_EVI = \<lparr>
     name = ''EVI'',
     description = ''Enhanced Vegetation Index'',
     formula =
       [Lit ''2.5 * ('', Band ''NIR'', Lit '' - '', Band ''RED'', Lit '') / ('', Band ''NIR'',
        Lit '' + 6 * '', Band ''RED'', Lit '' - 7.5 * '', Band ''BLUE'', Lit '' + 1)''],
     bands_required = [(''BLUE'', RangeReq 450 520), (''RED'', RangeReq 620 690), (''NIR'', RangeReq 760 900)],
     theme = ''vegetation'',
     normalize_range = Some (- 1, 1)\<rparr>"

definition idx_SAVI :: SpectralIndex where
  "idx_SAVI = \<lparr>
     name = ''SAVI'',
     description = ''Soil Adjusted Vegetation Index'',
     formula =
       [Lit ''((1 + 0.5) * ('', Band ''NIR'', Lit '' - '', Band ''RED'', Lit '')) / ('',
        Band ''NIR'', Lit '' + '', Band ''RED'', Lit '' + 0.5)''],
     bands_required = [(''RED'', RangeReq 620 690), (''NIR'', RangeReq 760 900)],
     theme = ''vegetation'',
     normalize_range = Some (- 1, 1)\<rparr>"

definition idx_MSAVI :: SpectralIndex where
  "idx_MSAVI = \<lparr>
     name = ''MSAVI'',
     description = ''Modified Soil Adjusted Vegetation Index'',
     formula =
       [Lit ''(2 * '', Band ''NIR'', Lit '' + 1 - sqrt((2 * '', Band ''NIR'',
        Lit '' + 1)^2 - 8 * ('', Band ''NIR'', Lit '' - '', Band ''RED'', Lit ''))) / 2''],
     bands_required = [(''RED'', RangeReq 620 690), (''NIR'', RangeReq 760 900)],
     theme = ''vegetation'',
     normalize_range = None\<rparr>"

definition idx_GNDVI :: SpectralIndex where
  "idx_GNDVI = \<lparr>
     name = ''GNDVI'',
     description = ''Green Normalized Difference Vegetation Index'',
     formula =
       [Lit ''float('', Band ''NIR'', Lit '' - '', Band ''GREEN'', Lit '') / ('', Band ''NIR'',
        Lit '' + '', Band ''GREEN'', Lit '')''],
     bands_required = [(''GREEN'', RangeReq 520 600), (''NIR'', RangeReq 760 900)],
     theme = ''vegetation'',
     normalize_range = Some (- 1, 1)\<rparr>"

definition idx_NDRE :: SpectralIndex where
  "idx_NDRE = \<lparr>
     name = ''NDRE'',
     description = ''Normalized Difference Red Edge'',
     formula =
       [Lit ''float('', Band ''NIR'', Lit '' - '', Band ''REDEDGE'', Lit '') / ('',
        Band ''NIR'', Lit '' + '', Band ''REDEDGE'', Lit '')''],
     bands_required = [(''REDEDGE'', RangeReq 690 730), (''NIR'', RangeReq 760 900)],
     theme = ''vegetation'',
     normalize_range = Some (- 1, 1)\<rparr>"

definition idx_CIrededge :: SpectralIndex where
  "idx_CIrededge = \<lparr>
     name = ''CIrededge'',
     description = ''Chlorophyll Index Red Edge'',
     formula =
       [Lit ''('', Band ''NIR'', Lit '' / '', Band ''REDEDGE'', Lit '') - 1''],
     bands_required = [(''REDEDGE'', RangeReq 690 730), (''NIR'', RangeReq 760 900)],
     theme = ''vegetation'',
     normalize_range = None\<rparr>"

definition idx_MTCI :: SpectralIndex where
  "idx_MTCI = \<lparr>
     name = ''MTCI'',
     description = ''MERIS Terrestrial Chlorophyll Index'',
     formula =
       [Lit ''('', Band ''NIR'', Lit '' - '', Band ''REDEDGE'', Lit '') / ('',
        Band ''REDEDGE'', Lit '' - '', Band ''RED'', Lit '')''],
     bands_required = [(''RED'', RangeReq 620 690), (''REDEDGE'', RangeReq 690 730), (''NIR'', RangeReq 760 900)],
     theme = ''vegetation'',
     normalize_range = None\<rparr>"

definition idx_MCARI :: SpectralIndex where
  "idx_MCARI = \<lparr>
     name = ''MCARI'',
     description = ''Modified Chlorophyll Absorption Ratio Index'',
     formula =
       [Lit ''(('', Band ''REDEDGE'', Lit '' - '', Band ''RED'', Lit '') - 0.2 * ('',
        Band ''REDEDGE'', Lit '' - '', Band ''GREEN'', Lit '')) * ('', Band ''REDEDGE'',
        Lit '' / '', Band ''RED'', Lit '')''],
     bands_required = [(''GREEN'', RangeReq 520 600), (''RED'', RangeReq 620 690), (''REDEDGE'', RangeReq 690 730)],
     theme = ''vegetation'',
     normalize_range = None\<rparr>"

definition idx_REIP :: SpectralIndex where
  "idx_REIP = \<lparr>
     name = ''REIP'',
     description = ''Red Edge Inflection Point'',
     formula =
       [Lit ''700 + 40 * ((('', Band ''RED'', Lit '' + '', Band ''NIR'', Lit '') / 2) - '',
        Band ''RE1'', Lit '') / ('', Band ''RE2'', Lit '' - '', Band ''RE1'', Lit '')''],
     bands_required = [(''RED'', RangeReq 620 690), (''RE1'', RangeReq 697 712), (''RE2'', RangeReq 732 748), (''NIR'', RangeReq 760 900)],
     theme = ''vegetation'',
     normalize_range = None\<rparr>"

definition idx_ARVI :: SpectralIndex where
  "idx_ARVI = \<lparr>
     name = ''ARVI'',
     description = ''Atmospherically Resistant Vegetation Index'',
     formula =
       [Lit ''('', Band ''NIR'', Lit '' - (2 * '', Band ''RED'', Lit '' - '', Band ''BLUE'',
        Lit '')) / ('', Band ''NIR'', Lit '' + (2 * '', Band ''RED'', Lit '' - '',
        Band ''BLUE'', Lit ''))''],
     bands_required = [(''BLUE'', RangeReq 450 520), (''RED'', RangeReq 620 690), (''NIR'', RangeReq 760 900)],
     theme = ''vegetation'',
     normalize_range = None\<rparr>"

definition idx_VARI :: SpectralIndex where
  "idx_VARI = \<lparr>
     name = ''VARI'',
     description = ''Visible Atmospherically Resistant Index'',
     formula =
       [Lit ''('', Band ''GREEN'', Lit '' - '', Band ''RED'', Lit '') / ('', Band ''GREEN'',
        Lit '' + '', Band ''RED'', Lit '' - '', Band ''BLUE'', Lit '')''],
     bands_required = [(''BLUE'', RangeReq 450 520), (''GREEN'', RangeReq 520 600), (''RED'', RangeReq 620 690)],
     theme = ''vegetation'',
     normalize_range = None\<rparr>"

definition idx_DVI :: SpectralIndex where
  "idx_DVI = \<lparr>
     name = ''DVI'',
     description = ''Difference Vegetation Index'',
     formula =
       [Band ''NIR'', Lit '' - '', Band ''RED''],
     bands_required = [(''RED'', RangeReq 620 690), (''NIR'', RangeReq 760 900)],
     theme = ''vegetation'',
     normalize_range = None\<rparr>"

definition idx_TVI :: SpectralIndex where
  "idx_TVI = \<lparr>
     name = ''TVI'',
     description = ''Triangular Vegetation Index'',
     formula =
       [Lit ''0.5 * (120 * ('', Band ''NIR'', Lit '' - '', Band ''GREEN'', Lit '') - 200 * ('',
        Band ''RED'', Lit '' - '', Band ''GREEN'', Lit ''))''],
     bands_required = [(''GREEN'', RangeReq 520 600), (''RED'', RangeReq 620 690), (''NIR'', RangeReq 760 900)],
     theme = ''vegetation'',
     normalize_range = None\<rparr>"

definition idx_ARI1 :: SpectralIndex where
  "idx_ARI1 = \<lparr>
     name = ''ARI1'',
     description = ''Anthocyanin Reflectance Index 1'',
     formula =
       [Lit ''(1 / '', Band ''GREEN'', Lit '') - (1 / '', Band ''REDEDGE'', Lit '')''],
     bands_required = [(''GREEN'', RangeReq 520 600), (''REDEDGE'', RangeReq 690 730)],
     theme = ''pigments'',
     normalize_range = None\<rparr>"

definition idx_ARI2 :: SpectralIndex where
  "idx_ARI2 = \<lparr>
     name = ''ARI2'',
     description = ''Anthocyanin Reflectance Index 2'',
     formula =
       [Band ''NIR'', Lit '' * ((1 / '', Band ''GREEN'', Lit '') - (1 / '', Band ''REDEDGE'',
        Lit ''))''],
     bands_required = [(''GREEN'', RangeReq 520 600), (''REDEDGE'', RangeReq 690 730), (''NIR'', RangeReq 760 900)],
     theme = ''pigments'',
     normalize_range = None\<rparr>"

definition idx_CRI550 :: SpectralIndex where
  "idx_CRI550 = \<lparr>
     name = ''CRI550'',
     description = ''Carotenoid Reflectance Index 550'',
     formula =
       [Lit ''(1 / '', Band ''B510'', Lit '') - (1 / '', Band ''B550'', Lit '')''],
     bands_required = [(''B510'', RangeReq 505 515), (''B550'', RangeReq 545 555)],
     theme = ''pigments'',
     normalize_range = None\<rparr>"

definition idx_CRI700 :: SpectralIndex where
  "idx_CRI700 = \<lparr>
     name = ''CRI700'',
     description = ''Carotenoid Reflectance Index 700'',
     formula =
       [Lit ''(1 / '', Band ''B510'', Lit '') - (1 / '', Band ''B700'', Lit '')''],
     bands_required = [(''B510'', RangeReq 505 515), (''B700'', RangeReq 695 705)],
     theme = ''pigments'',
     normalize_range = None\<rparr>"

definition idx_CARI :: SpectralIndex where
  "idx_CARI = \<lparr>
     name = ''CARI'',
     description = ''Chlorophyll Absorption Ratio Index'',
     formula =
       [Lit ''('', Band ''RE700'', Lit '' / '', Band ''RED'', Lit '') * abs((('',
        Band ''B550'', Lit '' - '', Band ''RED'', Lit '') / '', Band ''RE700'', Lit '') + '',
        Band ''RED'', Lit '' - '', Band ''B550'', Lit '')''],
     bands_required = [(''B550'', RangeReq 545 555), (''RED'', RangeReq 620 690), (''RE700'', RangeReq 695 705)],
     theme = ''pigments'',
     normalize_range = None\<rparr>"

definition idx_MCARIOSAVI :: SpectralIndex where
  "idx_MCARIOSAVI = \<lparr>
     name = ''MCARIOSAVI'',
     description = ''MCARI/OSAVI ratio - Chlorophyll content'',
     formula =
       [Lit ''((('', Band ''RE700'', Lit '' - '', Band ''RED'', Lit '') - 0.2 * ('',
        Band ''RE700'', Lit '' - '', Band ''GREEN'', Lit '')) * ('', Band ''RE700'',
        Lit '' / '', Band ''RED'', Lit '')) / ((1.16 * ('', Band ''NIR'', Lit '' - '',
        Band ''RED'', Lit '') / ('', Band ''NIR'', Lit '' + '', Band ''RED'',
        Lit '' + 0.16)))''],
     bands_required = [(''GREEN'', RangeReq 520 600), (''RED'', RangeReq 620 690), (''RE700'', RangeReq 695 705), (''NIR'', RangeReq 760 900)],
     theme = ''pigments'',
     normalize_range = None\<rparr>"

definition idx_GITELSON :: SpectralIndex where
  "idx_GITELSON = \<lparr>
     name = ''GITELSON'',
     description = ''Gitelson Chlorophyll Index'',
     formula =
       [Lit ''('', Band ''NIR'', Lit '' / '', Band ''GREEN'', Lit '') - 1''],
     bands_required = [(''GREEN'', RangeReq 520 600), (''NIR'', RangeReq 760 900)],
     theme = ''pigments'',
     normalize_range = None\<rparr>"

definition idx_GITELSON2 :: SpectralIndex where
  "idx_GITELSON2 = \<lparr>
     name = ''GITELSON2'',
     description = ''Gitelson Chlorophyll Index 2'',
     formula =
       [Lit ''('', Band ''NIR'', Lit '' / '', Band ''REDEDGE'', Lit '') - 1''],
     bands_required = [(''REDEDGE'', RangeReq 690 730), (''NIR'', RangeReq 760 900)],
     theme = ''pigments'',
     normalize_range = None\<rparr>"

definition idx_MCARI1 :: SpectralIndex where
  "idx_MCARI1 = \<lparr>
     name = ''MCARI1'',
     description = ''Modified Chlorophyll Absorption Ratio Index 1'',
     formula =
       [Lit ''1.2 * (2.5 * ('', Band ''NIR'', Lit '' - '', Band ''RED'', Lit '') - 1.3 * ('',
        Band ''NIR'', Lit '' - '', Band ''GREEN'', Lit ''))''],
     bands_required = [(''GREEN'', RangeReq 520 600), (''RED'', RangeReq 620 690), (''NIR'', RangeReq 760 900)],
     theme = ''pigments'',
     normalize_range = None\<rparr>"

definition idx_MCARI2 :: SpectralIndex where
  "idx_MCARI2 = \<lparr>
     name = ''MCARI2'',
     description = ''Modified Chlorophyll Absorption Ratio Index 2'',
     formula =
       [Lit ''(1.5 * (2.5 * ('', Band ''NIR'', Lit '' - '', Band ''RED'', Lit '') - 1.3 * ('',
        Band ''NIR'', Lit '' - '', Band ''GREEN'', Lit ''))) / sqrt((2 * '', Band ''NIR'',
        Lit '' + 1)^2 - (6 * '', Band ''NIR'', Lit '' - 5 * sqrt('', Band ''RED'',
        Lit '')) - 0.5)''],
     bands_required = [(''GREEN'', RangeReq 520 600), (''RED'', RangeReq 620 690), (''NIR'', RangeReq 760 900)],
     theme = ''pigments'',
     normalize_range = None\<rparr>"

definition idx_RDVI :: SpectralIndex where
  "idx_RDVI = \<lparr>
     name = ''RDVI'',
     description = ''Renormalized Difference Vegetation Index'',
     formula =
       [Lit ''('', Band ''NIR'', Lit '' - '', Band ''RED'', Lit '') / sqrt('', Band ''NIR'',
        Lit '' + '', Band ''RED'', Lit '')''],
     bands_required = [(''RED'', RangeReq 620 690), (''NIR'', RangeReq 760 900)],
     theme = ''pigments'',
     normalize_range = None\<rparr>"

definition idx_MARI :: SpectralIndex where
  "idx_MARI = \<lparr>
     name = ''MARI'',
     description = ''Modified Anthocyanin Reflectance Index'',
     formula =
       [Lit ''((1 / '', Band ''GREEN'', Lit '') - (1 / '', Band ''REDEDGE'', Lit '')) * '',
        Band ''NIR''],
     bands_required = [(''GREEN'', RangeReq 520 600), (''REDEDGE'', RangeReq 690 730), (''NIR'', RangeReq 760 900)],
     theme = ''pigments'',
     normalize_range = None\<rparr>"

definition idx_VREI1 :: SpectralIndex where
  "idx_VREI1 = \<lparr>
     name = ''VREI1'',
     description = ''Vogelmann Red Edge Index 1'',
     formula =
       [Band ''RE740'', Lit '' / '', Band ''RE720''],
     bands_required = [(''RE720'', RangeReq 715 725), (''RE740'', RangeReq 735 745)],
     theme = ''pigments'',
     normalize_range = None\<rparr>"

definition idx_VREI2 :: SpectralIndex where
  "idx_VREI2 = \<lparr>
     name = ''VREI2'',
     description = ''Vogelmann Red Edge Index 2'',
     formula =
       [Lit ''('', Band ''RE734'', Lit '' - '', Band ''RE747'', Lit '') / ('', Band ''RE715'',
        Lit '' + '', Band ''RE726'', Lit '')''],
     bands_required = [(''RE715'', RangeReq 710 720), (''RE726'', RangeReq 721 731), (''RE734'', RangeReq 729 739), (''RE747'', RangeReq 742 752)],
     theme = ''pigments'',
     normalize_range = None\<rparr>"

definition idx_DD :: SpectralIndex where
  "idx_DD = \<lparr>
     name = ''DD'',
     description = ''Double Difference Index - Chlorophyll'',
     formula =
       [Lit ''('', Band ''RE749'', Lit '' - '', Band ''RE720'', Lit '') - ('', Band ''RE701'',
        Lit '' - '', Band ''RE672'', Lit '')''],
     bands_required = [(''RE672'', RangeReq 667 677), (''RE701'', RangeReq 696 706), (''RE720'', RangeReq 715 725), (''RE749'', RangeReq 744 754)],
     theme = ''pigments'',
     normalize_range = None\<rparr>"

definition idx_WI :: SpectralIndex where
  "idx_WI = \<lparr>
     name = ''WI'',
     description = ''Water Index - Leaf water content'',
     formula =
       [Band ''B900'', Lit '' / '', Band ''B970''],
     bands_required = [(''B900'', RangeReq 895 905), (''B970'', RangeReq 965 975)],
     theme = ''metabolism'',
     normalize_range = None\<rparr>"

definition idx_NDWI1240 :: SpectralIndex where
  "idx_NDWI1240 = \<lparr>
     name = ''NDWI1240'',
     description = ''Normalized Difference Water Index 1240'',
     formula =
       [Lit ''('', Band ''B860'', Lit '' - '', Band ''B1240'', Lit '') / ('', Band ''B860'',
        Lit '' + '', Band ''B1240'', Lit '')''],
     bands_required = [(''B860'', RangeReq 855 865), (''B1240'', RangeReq 1235 1245)],
     theme = ''metabolism'',
     normalize_range = None\<rparr>"

definition idx_NDWI2130 :: SpectralIndex where
  "idx_NDWI2130 = \<lparr>
     name = ''NDWI2130'',
     description = ''Normalized Difference Water Index 2130'',
     formula =
       [Lit ''('', Band ''B860'', Lit '' - '', Band ''B2130'', Lit '') / ('', Band ''B860'',
        Lit '' + '', Band ''B2130'', Lit '')''],
     bands_required = [(''B860'', RangeReq 855 865), (''B2130'', RangeReq 2125 2135)],
     theme = ''metabolism'',
     normalize_range = None\<rparr>"

definition idx_LWCI :: SpectralIndex where
  "idx_LWCI = \<lparr>
     name = ''LWCI'',
     description = ''Leaf Water Content Index'',
     formula =
       [Lit ''log(1 - ('', Band ''B970'', Lit '' - '', Band ''B900'', Lit '')) / log(1 - ('',
        Band ''B970'', Lit '' - '', Band ''B955'', Lit ''))''],
     bands_required = [(''B900'', RangeReq 895 905), (''B955'', RangeReq 950 960), (''B970'', RangeReq 965 975)],
     theme = ''metabolism'',
     normalize_range = None\<rparr>"

definition idx_NDII :: SpectralIndex where
  "idx_NDII = \<lparr>
     name = ''NDII'',
     description = ''Normalized Difference Infrared Index'',
     formula =
       [Lit ''('', Band ''B819'', Lit '' - '', Band ''B1649'', Lit '') / ('', Band ''B819'',
        Lit '' + '', Band ''B1649'', Lit '')''],
     bands_required = [(''B819'', RangeReq 814 824), (''B1649'', RangeReq 1644 1654)],
     theme = ''metabolism'',
     normalize_range = None\<rparr>"

definition idx_SRWI :: SpectralIndex where
  "idx_SRWI = \<lparr>
     name = ''SRWI'',
     description = ''Simple Ratio Water Index'',
     formula =
       [Band ''B860'', Lit '' / '', Band ''B1240''],
     bands_required = [(''B860'', RangeReq 855 865), (''B1240'', RangeReq 1235 1245)],
     theme = ''metabolism'',
     normalize_range = None\<rparr>"

definition idx_DATT :: SpectralIndex where
  "idx_DATT = \<lparr>
     name = ''DATT'',
     description = ''Datt Index - Leaf pigment'',
     formula =
       [Lit ''('', Band ''B850'', Lit '' - '', Band ''B710'', Lit '') / ('', Band ''B850'',
        Lit '' - '', Band ''B680'', Lit '')''],
     bands_required = [(''B680'', RangeReq 675 685), (''B710'', RangeReq 705 715), (''B850'', RangeReq 845 855)],
     theme = ''metabolism'',
     normalize_range = None\<rparr>"

definition idx_CARTER1 :: SpectralIndex where
  "idx_CARTER1 = \<lparr>
     name = ''CARTER1'',
     description = ''Carter Index 1 - Stress'',
     formula =
       [Band ''B695'', Lit '' / '', Band ''B420''],
     bands_required = [(''B420'', RangeReq 415 425), (''B695'', RangeReq 690 700)],
     theme = ''metabolism'',
     normalize_range = None\<rparr>"

definition idx_CARTER2 :: SpectralIndex where
  "idx_CARTER2 = \<lparr>
     name = ''CARTER2'',
     description = ''Carter Index 2 - Stress'',
     formula =
       [Band ''B695'', Lit '' / '', Band ''B760''],
     bands_required = [(''B695'', RangeReq 690 700), (''B760'', RangeReq 755 765)],
     theme = ''metabolism'',
     normalize_range = None\<rparr>"

definition idx_GMI :: SpectralIndex where
  "idx_GMI = \<lparr>
     name = ''GMI'',
     description = ''Gamon Index - Photosynthetic efficiency'',
     formula =
       [Band ''B750'', Lit '' / '', Band ''B550''],
     bands_required = [(''B550'', RangeReq 545 555), (''B750'', RangeReq 745 755)],
     theme = ''metabolism'',
     normalize_range = None\<rparr>"

definition idx_NPQI :: SpectralIndex where
  "idx_NPQI = \<lparr>
     name = ''NPQI'',
     description = ''Normalized Phaeophytinization Index'',
     formula =
       [Lit ''('', Band ''B415'', Lit '' - '', Band ''B435'', Lit '') / ('', Band ''B415'',
        Lit '' + '', Band ''B435'', Lit '')''],
     bands_required = [(''B415'', RangeReq 410 420), (''B435'', RangeReq 430 440)],
     theme = ''metabolism'',
     normalize_range = None\<rparr>"

definition idx_NPCI :: SpectralIndex where
  "idx_NPCI = \<lparr>
     name = ''NPCI'',
     description = ''Normalized Pigment Chlorophyll Index'',
     formula =
       [Lit ''('', Band ''B680'', Lit '' - '', Band ''B430'', Lit '') / ('', Band ''B680'',
        Lit '' + '', Band ''B430'', Lit '')''],
     bands_required = [(''B430'', RangeReq 425 435), (''B680'', RangeReq 675 685)],
     theme = ''metabolism'',
     normalize_range = None\<rparr>"

definition idx_RGRI :: SpectralIndex where
  "idx_RGRI = \<lparr>
     name = ''RGRI'',
     description = ''Red-Green Ratio Index'',
     formula =
       [Band ''RED'', Lit '' / '', Band ''GREEN''],
     bands_required = [(''GREEN'', RangeReq 520 600), (''RED'', RangeReq 620 690)],
     theme = ''metabolism'',
     normalize_range = None\<rparr>"

definition idx_CAI :: SpectralIndex where
  "idx_CAI = \<lparr>
     name = ''CAI'',
     description = ''Cellulose Absorption Index'',
     formula =
       [Lit ''0.5 * ('', Band ''SWIR1'', Lit '' + '', Band ''SWIR2'', Lit '') - '',
        Band ''SWIR3''],
     bands_required = [(''SWIR1'', RangeReq 2000 2100), (''SWIR2'', RangeReq 2100 2300), (''SWIR3'', RangeReq 2000 2100)],
     theme = ''biochemical'',
     normalize_range = None\<rparr>"

definition idx_NDLI :: SpectralIndex where
  "idx_NDLI = \<lparr>
     name = ''NDLI'',
     description = ''Normalized Difference Lignin Index'',
     formula =
       [Lit ''(log(1/'', Band ''SWIR1'', Lit '') - log(1/'', Band ''SWIR2'',
        Lit '')) / (log(1/'', Band ''SWIR1'', Lit '') + log(1/'', Band ''SWIR2'', Lit ''))''],
     bands_required = [(''SWIR1'', RangeReq 1680 1750), (''SWIR2'', RangeReq 1754 1850)],
     theme = ''biochemical'',
     normalize_range = None\<rparr>"

definition idx_PRI :: SpectralIndex where
  "idx_PRI = \<lparr>
     name = ''PRI'',
     description = ''Photochemical Reflectance Index'',
     formula =
       [Lit ''('', Band ''GREEN1'', Lit '' - '', Band ''GREEN2'', Lit '') / ('',
        Band ''GREEN1'', Lit '' + '', Band ''GREEN2'', Lit '')''],
     bands_required = [(''GREEN1'', RangeReq 528 532), (''GREEN2'', RangeReq 565 570)],
     theme = ''biochemical'',
     normalize_range = Some (- 1, 1)\<rparr>"

definition idx_SIPI :: SpectralIndex where
  "idx_SIPI = \<lparr>
     name = ''SIPI'',
     description = ''Structure Insensitive Pigment Index'',
     formula =
       [Lit ''('', Band ''NIR'', Lit '' - '', Band ''BLUE'', Lit '') / ('', Band ''NIR'',
        Lit '' - '', Band ''RED'', Lit '')''],
     bands_required = [(''BLUE'', RangeReq 445 455), (''RED'', RangeReq 620 690), (''NIR'', RangeReq 760 900)],
     theme = ''biochemical'',
     normalize_range = None\<rparr>"

definition idx_PSRI :: SpectralIndex where
  "idx_PSRI = \<lparr>
     name = ''PSRI'',
     description = ''Plant Senescence Reflectance Index'',
     formula =
       [Lit ''('', Band ''RED'', Lit '' - '', Band ''GREEN'', Lit '') / '', Band ''REDEDGE''],
     bands_required = [(''GREEN'', RangeReq 520 600), (''RED'', RangeReq 620 690), (''REDEDGE'', RangeReq 690 730)],
     theme = ''biochemical'',
     normalize_range = None\<rparr>"

definition idx_NDWI :: SpectralIndex where
  "idx_NDWI = \<lparr>
     name = ''NDWI'',
     description = ''Normalized Difference Water Index'',
     formula =
       [Lit ''float('', Band ''GREEN'', Lit '' - '', Band ''NIR'', Lit '') / ('',
        Band ''GREEN'', Lit '' + '', Band ''NIR'', Lit '')''],
     bands_required = [(''GREEN'', RangeReq 520 600), (''NIR'', RangeReq 760 900)],
     theme = ''water'',
     normalize_range = Some (- 1, 1)\<rparr>"

definition idx_MNDWI :: SpectralIndex where
  "idx_MNDWI = \<lparr>
     name = ''MNDWI'',
     description = ''Modified Normalized Difference Water Index'',
     formula =
       [Lit ''float('', Band ''GREEN'', Lit '' - '', Band ''SWIR'', Lit '') / ('',
        Band ''GREEN'', Lit '' + '', Band ''SWIR'', Lit '')''],
     bands_required = [(''GREEN'', RangeReq 520 600), (''SWIR'', RangeReq 1550 1750)],
     theme = ''water'',
     normalize_range = Some (- 1, 1)\<rparr>"

definition idx_NDMI :: SpectralIndex where
  "idx_NDMI = \<lparr>
     name = ''NDMI'',
     description = ''Normalized Difference Moisture Index'',
     formula =
       [Lit ''float('', Band ''NIR'', Lit '' - '', Band ''SWIR'', Lit '') / ('', Band ''NIR'',
        Lit '' + '', Band ''SWIR'', Lit '')''],
     bands_required = [(''NIR'', RangeReq 760 900), (''SWIR'', RangeReq 1550 1750)],
     theme = ''water'',
     normalize_range = Some (- 1, 1)\<rparr>"

definition idx_BI :: SpectralIndex where
  "idx_BI = \<lparr>
     name = ''BI'',
     description = ''Brightness Index'',
     formula =
       [Lit ''sqrt(('', Band ''RED'', Lit ''^2 + '', Band ''GREEN'', Lit ''^2) / 2)''],
     bands_required = [(''GREEN'', RangeReq 520 600), (''RED'', RangeReq 620 690)],
     theme = ''soil'',
     normalize_range = None\<rparr>"

definition idx_CI :: SpectralIndex where
  "idx_CI = \<lparr>
     name = ''CI'',
     description = ''Coloration Index'',
     formula =
       [Lit ''('', Band ''RED'', Lit '' - '', Band ''GREEN'', Lit '') / '', Band ''RED''],
     bands_required = [(''GREEN'', RangeReq 520 600), (''RED'', RangeReq 620 690)],
     theme = ''soil'',
     normalize_range = None\<rparr>"

definition idx_RI :: SpectralIndex where
  "idx_RI = \<lparr>
     name = ''RI'',
     description = ''Redness Index'',
     formula =
       [Band ''RED'', Lit ''^2 / ('', Band ''GREEN'', Lit ''^3)''],
     bands_required = [(''GREEN'', RangeReq 520 600), (''RED'', RangeReq 620 690)],
     theme = ''soil'',
     normalize_range = None\<rparr>"

definition idx_NDBI :: SpectralIndex where
  "idx_NDBI = \<lparr>
     name = ''NDBI'',
     description = ''Normalized Difference Built-up Index'',
     formula =
       [Lit ''float('', Band ''SWIR'', Lit '' - '', Band ''NIR'', Lit '') / ('', Band ''SWIR'',
        Lit '' + '', Band ''NIR'', Lit '')''],
     bands_required = [(''NIR'', RangeReq 760 900), (''SWIR'', RangeReq 1550 1750)],
     theme = ''urban'',
     normalize_range = Some (- 1, 1)\<rparr>"

definition idx_UI :: SpectralIndex where
  "idx_UI = \<lparr>
     name = ''UI'',
     description = ''Urban Index'',
     formula =
       [Lit ''('', Band ''SWIR'', Lit '' - '', Band ''NIR'', Lit '') / ('', Band ''SWIR'',
        Lit '' + '', Band ''NIR'', Lit '')''],
     bands_required = [(''NIR'', RangeReq 760 900), (''SWIR'', RangeReq 1550 1750)],
     theme = ''urban'',
     normalize_range = None\<rparr>"

definition idx_MSI :: SpectralIndex where
  "idx_MSI = \<lparr>
     name = ''MSI'',
     description = ''Moisture Stress Index'',
     formula =
       [Band ''SWIR'', Lit '' / '', Band ''NIR''],
     bands_required = [(''NIR'', RangeReq 760 900), (''SWIR'', RangeReq 1550 1750)],
     theme = ''stress'',
     normalize_range = None\<rparr>"

definition idx_NDNI :: SpectralIndex where
  "idx_NDNI = \<lparr>
     name = ''NDNI'',
     description = ''Normalized Difference Nitrogen Index'',
     formula =
       [Lit ''(log(1/'', Band ''NIR1'', Lit '') - log(1/'', Band ''NIR2'',
        Lit '')) / (log(1/'', Band ''NIR1'', Lit '') + log(1/'', Band ''NIR2'', Lit ''))''],
     bands_required = [(''NIR1'', RangeReq 1510 1520), (''NIR2'', RangeReq 1680 1690)],
     theme = ''stress'',
     normalize_range = None\<rparr>"

definition idx_TCARI :: SpectralIndex where
  "idx_TCARI = \<lparr>
     name = ''TCARI'',
     description = ''Transformed Chlorophyll Absorption Ratio'',
     formula =
       [Lit ''3 * (('', Band ''REDEDGE'', Lit '' - '', Band ''RED'', Lit '') - 0.2 * ('',
        Band ''REDEDGE'', Lit '' - '', Band ''GREEN'', Lit '') * ('', Band ''REDEDGE'',
        Lit '' / '', Band ''RED'', Lit ''))''],
     bands_required = [(''GREEN'', RangeReq 520 600), (''RED'', RangeReq 620 690), (''REDEDGE'', RangeReq 690 730)],
     theme = ''stress'',
     normalize_range = None\<rparr>"

definition idx_HI :: SpectralIndex where
  "idx_HI = \<lparr>
     name = ''HI'',
     description = ''Hydrocarbon Index - Oil & gas detection'',
     formula =
       [Lit ''('', Band ''SWIR2200'', Lit '' * '', Band ''SWIR2400'', Lit '') / ('',
        Band ''SWIR2300'', Lit ''^2)''],
     bands_required = [(''SWIR2200'', RangeReq 2195 2205), (''SWIR2300'', RangeReq 2295 2305), (''SWIR2400'', RangeReq 2395 2405)],
     theme = ''materials'',
     normalize_range = None\<rparr>"

definition idx_THI :: SpectralIndex where
  "idx_THI = \<lparr>
     name = ''THI'',
     description = ''Tentative Hydrocarbon Index'',
     formula =
       [Lit ''('', Band ''SWIR1730'', Lit '' + '', Band ''SWIR2450'', Lit '') / (2 * '',
        Band ''SWIR2210'', Lit '')''],
     bands_required = [(''SWIR1730'', RangeReq 1725 1735), (''SWIR2210'', RangeReq 2205 2215), (''SWIR2450'', RangeReq 2445 2455)],
     theme = ''materials'',
     normalize_range = None\<rparr>"

definition idx_OHI :: SpectralIndex where
  "idx_OHI = \<lparr>
     name = ''OHI'',
     description = ''Oil and Hydrocarbon Index'',
     formula =
       [Lit ''('', Band ''SWIR1650'', Lit '' + '', Band ''SWIR2450'', Lit '') / '',
        Band ''SWIR2210''],
     bands_required = [(''SWIR1650'', RangeReq 1645 1655), (''SWIR2210'', RangeReq 2205 2215), (''SWIR2450'', RangeReq 2445 2455)],
     theme = ''materials'',
     normalize_range = None\<rparr>"

definition idx_TPI :: SpectralIndex where
  "idx_TPI = \<lparr>
     name = ''TPI'',
     description = ''Tar/Petroleum Index'',
     formula =
       [Band ''SWIR2300'', Lit '' / '', Band ''SWIR1650''],
     bands_required = [(''SWIR1650'', RangeReq 1645 1655), (''SWIR2300'', RangeReq 2295 2305)],
     theme = ''materials'',
     normalize_range = None\<rparr>"

definition idx_COAL :: SpectralIndex where
  "idx_COAL = \<lparr>
     name = ''COAL'',
     description = ''Coal/Carbon Index'',
     formula =
       [Lit ''('', Band ''SWIR2200'', Lit '' / '', Band ''SWIR1600'', Lit '') * ('',
        Band ''SWIR2200'', Lit '' / '', Band ''NIR'', Lit '')''],
     bands_required = [(''NIR'', RangeReq 760 900), (''SWIR1600'', RangeReq 1595 1605), (''SWIR2200'', RangeReq 2195 2205)],
     theme = ''materials'',
     normalize_range = None\<rparr>"

definition idx_PLASTIC :: SpectralIndex where
  "idx_PLASTIC = \<lparr>
     name = ''PLASTIC'',
     description = ''Plastic Detection Index'',
     formula =
       [Lit ''('', Band ''NIR'', Lit '' / '', Band ''SWIR1600'', Lit '') - ('',
        Band ''SWIR2200'', Lit '' / '', Band ''SWIR1600'', Lit '')''],
     bands_required = [(''NIR'', RangeReq 760 900), (''SWIR1600'', RangeReq 1595 1605), (''SWIR2200'', RangeReq 2195 2205)],
     theme = ''materials'',
     normalize_range = None\<rparr>"

definition idx_PDI :: SpectralIndex where
  "idx_PDI = \<lparr>
     name = ''PDI'',
     description = ''Plastic Debris Index'',
     formula =
       [Lit ''('', Band ''NIR'', Lit '' - '', Band ''RED'', Lit '') / ('', Band ''NIR'',
        Lit '' + '', Band ''RED'', Lit '') - ('', Band ''SWIR1600'', Lit '' - '', Band ''NIR'',
        Lit '') / ('', Band ''SWIR1600'', Lit '' + '', Band ''NIR'', Lit '')''],
     bands_required = [(''RED'', RangeReq 620 690), (''NIR'', RangeReq 760 900), (''SWIR1600'', RangeReq 1595 1605)],
     theme = ''materials'',
     normalize_range = None\<rparr>"

definition idx_FPI :: SpectralIndex where
  "idx_FPI = \<lparr>
     name = ''FPI'',
     description = ''Floating Plastic Index'',
     formula =
       [Band ''NIR'', Lit '' / ('', Band ''RED'', Lit '' + '', Band ''SWIR1600'',
        Lit '') * 100''],
     bands_required = [(''RED'', RangeReq 620 690), (''NIR'', RangeReq 760 900), (''SWIR1600'', RangeReq 1595 1605)],
     theme = ''materials'',
     normalize_range = None\<rparr>"

definition idx_RSWIR :: SpectralIndex where
  "idx_RSWIR = \<lparr>
     name = ''RSWIR'',
     description = ''Reversed SWIR Index - Marine debris'',
     formula =
       [Band ''SWIR1600'', Lit '' / '', Band ''NIR''],
     bands_required = [(''NIR'', RangeReq 760 900), (''SWIR1600'', RangeReq 1595 1605)],
     theme = ''materials'',
     normalize_range = None\<rparr>"

definition idx_NDPI :: SpectralIndex where
  "idx_NDPI = \<lparr>
     name = ''NDPI'',
     description = ''Normalized Difference Plastic Index'',
     formula =
       [Lit ''('', Band ''SWIR1650'', Lit '' - '', Band ''NIR'', Lit '') / ('',
        Band ''SWIR1650'', Lit '' + '', Band ''NIR'', Lit '')''],
     bands_required = [(''NIR'', RangeReq 760 900), (''SWIR1650'', RangeReq 1645 1655)],
     theme = ''materials'',
     normalize_range = None\<rparr>"

definition idx_MPDI :: SpectralIndex where
  "idx_MPDI = \<lparr>
     name = ''MPDI'',
     description = ''Marine Plastic Detection Index'',
     formula =
       [Lit ''('', Band ''B490'', Lit '' - '', Band ''B560'', Lit '') / ('', Band ''B490'',
        Lit '' + '', Band ''B560'', Lit '') + ('', Band ''B665'', Lit '' - '', Band ''B865'',
        Lit '') / ('', Band ''B665'', Lit '' + '', Band ''B865'', Lit '')''],
     bands_required = [(''B490'', RangeReq 485 495), (''B560'', RangeReq 555 565), (''B665'', RangeReq 660 670), (''B865'', RangeReq 860 870)],
     theme = ''materials'',
     normalize_range = None\<rparr>"

definition idx_FERRIC :: SpectralIndex where
  "idx_FERRIC = \<lparr>
     name = ''FERRIC'',
     description = ''Ferric Iron Index'',
     formula =
       [Band ''SWIR1650'', Lit '' / '', Band ''B830''],
     bands_required = [(''B830'', RangeReq 825 835), (''SWIR1650'', RangeReq 1645 1655)],
     theme = ''materials'',
     normalize_range = None\<rparr>"

definition idx_FERROUS :: SpectralIndex where
  "idx_FERROUS = \<lparr>
     name = ''FERROUS'',
     description = ''Ferrous Iron Index'',
     formula =
       [Band ''SWIR1650'', Lit '' / '', Band ''B1550''],
     bands_required = [(''B1550'', RangeReq 1545 1555), (''SWIR1650'', RangeReq 1645 1655)],
     theme = ''materials'',
     normalize_range = None\<rparr>"

definition idx_LATERITE :: SpectralIndex where
  "idx_LATERITE = \<lparr>
     name = ''LATERITE'',
     description = ''Laterite Index - Iron-rich materials'',
     formula =
       [Lit ''('', Band ''SWIR1650'', Lit '' + '', Band ''RED'', Lit '') / '', Band ''NIR''],
     bands_required = [(''RED'', RangeReq 620 690), (''NIR'', RangeReq 760 900), (''SWIR1650'', RangeReq 1645 1655)],
     theme = ''materials'',
     normalize_range = None\<rparr>"

definition idx_GOSSAN :: SpectralIndex where
  "idx_GOSSAN = \<lparr>
     name = ''GOSSAN'',
     description = ''Gossan Index - Weathered sulfides'',
     formula =
       [Lit ''('', Band ''RED'', Lit '' * '', Band ''SWIR1650'', Lit '') / ('', Band ''GREEN'',
        Lit ''^2)''],
     bands_required = [(''GREEN'', RangeReq 520 600), (''RED'', RangeReq 620 690), (''SWIR1650'', RangeReq 1645 1655)],
     theme = ''materials'',
     normalize_range = None\<rparr>"

definition idx_SINDEX :: SpectralIndex where
  "idx_SINDEX = \<lparr>
     name = ''SINDEX'',
     description = ''S-Index - Soil/sediment composition'',
     formula =
       [Lit ''sqrt('', Band ''RED'', Lit '' * '', Band ''NIR'', Lit '')''],
     bands_required = [(''RED'', RangeReq 620 690), (''NIR'', RangeReq 760 900)],
     theme = ''materials'',
     normalize_range = None\<rparr>"

definition idx_PAINT :: SpectralIndex where
  "idx_PAINT = \<lparr>
     name = ''PAINT'',
     description = ''Paint Detection Index (synthetic coatings)'',
     formula =
       [Lit ''('', Band ''B450'', Lit '' + '', Band ''B650'', Lit '') / (2 * '', Band ''B550'',
        Lit '')''],
     bands_required = [(''B450'', RangeReq 445 455), (''B550'', RangeReq 545 555), (''B650'', RangeReq 645 655)],
     theme = ''materials'',
     normalize_range = None\<rparr>"

definition idx_ASPHALT :: SpectralIndex where
  "idx_ASPHALT = \<lparr>
     name = ''ASPHALT'',
     description = ''Asphalt/Bitumen Index'',
     formula =
       [Lit ''('', Band ''SWIR1600'', Lit '' - '', Band ''SWIR2200'', Lit '') / ('',
        Band ''SWIR1600'', Lit '' + '', Band ''SWIR2200'', Lit '')''],
     bands_required = [(''SWIR1600'', RangeReq 1595 1605), (''SWIR2200'', RangeReq 2195 2205)],
     theme = ''materials'',
     normalize_range = None\<rparr>"

definition idx_CONCRETE :: SpectralIndex where
  "idx_CONCRETE = \<lparr>
     name = ''CONCRETE'',
     description = ''Concrete Detection Index'',
     formula =
       [Lit ''('', Band ''B500'', Lit '' + '', Band ''SWIR2200'', Lit '') / '', Band ''NIR''],
     bands_required = [(''B500'', RangeReq 495 505), (''NIR'', RangeReq 760 900), (''SWIR2200'', RangeReq 2195 2205)],
     theme = ''materials'',
     normalize_range = None\<rparr>"

definition indices_db :: "(string \<times> SpectralIndex) list" where
  "indices_db = [
     (''NDVI'', idx_NDVI), (''EVI'', idx_EVI), (''SAVI'', idx_SAVI), (''MSAVI'', idx_MSAVI),
     (''GNDVI'', idx_GNDVI), (''NDRE'', idx_NDRE), (''CIrededge'', idx_CIrededge),
     (''MTCI'', idx_MTCI), (''MCARI'', idx_MCARI), (''REIP'', idx_REIP), (''ARVI'', idx_ARVI),
     (''VARI'', idx_VARI), (''DVI'', idx_DVI), (''TVI'', idx_TVI), (''ARI1'', idx_ARI1),
     (''ARI2'', idx_ARI2), (''CRI550'', idx_CRI550), (''CRI700'', idx_CRI700),
     (''CARI'', idx_CARI), (''MCARIOSAVI'', idx_MCARIOSAVI), (''GITELSON'', idx_GITELSON),
     (''GITELSON2'', idx_GITELSON2), (''MCARI1'', idx_MCARI1), (''MCARI2'', idx_MCARI2),
     (''RDVI'', idx_RDVI), (''MARI'', idx_MARI), (''VREI1'', idx_VREI1),
     (''VREI2'', idx_VREI2), (''DD'', idx_DD), (''WI'', idx_WI), (''NDWI1240'', idx_NDWI1240),
     (''NDWI2130'', idx_NDWI2130), (''LWCI'', idx_LWCI), (''NDII'', idx_NDII),
     (''SRWI'', idx_SRWI), (''DATT'', idx_DATT), (''CARTER1'', idx_CARTER1),
     (''CARTER2'', idx_CARTER2), (''GMI'', idx_GMI), (''NPQI'', idx_NPQI),
     (''NPCI'', idx_NPCI), (''RGRI'', idx_RGRI), (''CAI'', idx_CAI), (''NDLI'', idx_NDLI),
     (''PRI'', idx_PRI), (''SIPI'', idx_SIPI), (''PSRI'', idx_PSRI), (''NDWI'', idx_NDWI),
     (''MNDWI'', idx_MNDWI), (''NDMI'', idx_NDMI), (''BI'', idx_BI), (''CI'', idx_CI),
     (''RI'', idx_RI), (''NDBI'', idx_NDBI), (''UI'', idx_UI), (''MSI'', idx_MSI),
     (''NDNI'', idx_NDNI), (''TCARI'', idx_TCARI), (''HI'', idx_HI), (''THI'', idx_THI),
     (''OHI'', idx_OHI), (''TPI'', idx_TPI), (''COAL'', idx_COAL), (''PLASTIC'', idx_PLASTIC),
     (''PDI'', idx_PDI), (''FPI'', idx_FPI), (''RSWIR'', idx_RSWIR), (''NDPI'', idx_NDPI),
     (''MPDI'', idx_MPDI), (''FERRIC'', idx_FERRIC), (''FERROUS'', idx_FERROUS),
     (''LATERITE'', idx_LATERITE), (''GOSSAN'', idx_GOSSAN), (''SINDEX'', idx_SINDEX),
     (''PAINT'', idx_PAINT), (''ASPHALT'', idx_ASPHALT), (''CONCRETE'', idx_CONCRETE)]"

section \<open>HyperspectralIndices\<close>

subsection \<open>find_closest_band\<close>

fun target_center :: "wl_req \<Rightarrow> real" where
  "target_center (RangeReq lo hi) = (lo + hi) / 2"
| "target_center (SingleReq t) = t"

text \<open>
  \<^verbatim>\<open>min(xs, key=f)\<close>: the elements are visited in order and the current best is replaced
  only by an element whose key is strictly smaller; an empty sequence raises \<^verbatim>\<open>ValueError\<close>.
\<close>

fun min_by :: "('a \<Rightarrow> real) \<Rightarrow> 'a \<Rightarrow> 'a list \<Rightarrow> 'a" where
  "min_by key best [] = best"
| "min_by key best (x # xs) = (if key x < key best then min_by key x xs else min_by key best xs)"

definition py_min :: "('a \<Rightarrow> real) \<Rightarrow> 'a list \<Rightarrow> py_error + 'a" where
  "py_min key xs = (case xs of [] \<Rightarrow> Inl ValueError | x # rest \<Rightarrow> Inr (min_by key x rest))"

definition find_closest_band :: "wl_req \<Rightarrow> real list \<Rightarrow> py_error + real" where
  "find_closest_band wavelength_target available_wavelengths =
     py_min (\<lambda>x. \<bar>x - target_center wavelength_target\<bar>) available_wavelengths"

subsection \<open>can_calculate_index\<close>

text \<open>
  The message of the result is kept as data: \<open>BandNotAvailable band_name wavelength_range\<close>
  stands for \<^verbatim>\<open>f"Required band {band_name} ({wavelength_range} nm) not available"\<close>.
\<close>

datatype check_msg = IndexNotFound | BandNotAvailable string wl_req | MsgOK

text \<open>The inner loop over the available wavelengths: the value of \<^verbatim>\<open>found\<close> at its end.\<close>

fun band_found :: "wl_req \<Rightarrow> real list \<Rightarrow> bool" where
  "band_found wavelength_range [] = False"
| "band_found (RangeReq lo hi) (wl # wls) =
     (if lo \<le> wl \<and> wl \<le> hi then True else band_found (RangeReq lo hi) wls)"
| "band_found (SingleReq t) (wl # wls) =
     (if \<bar>wl - t\<bar> < 50 then True else band_found (SingleReq t) wls)"

text \<open>The outer loop over \<^verbatim>\<open>index.bands_required.items()\<close>.\<close>

fun check_bands :: "(string \<times> wl_req) list \<Rightarrow> real list \<Rightarrow> bool \<times> check_msg" where
  "check_bands [] available_wavelengths = (True, MsgOK)"
| "check_bands ((band_name, wavelength_range) # rest) available_wavelengths =
     (if \<not> band_found wavelength_range available_wavelengths
      then (False, BandNotAvailable band_name wavelength_range)
      else check_bands rest available_wavelengths)"

definition can_calculate_index ::
  "(string \<times> SpectralIndex) list \<Rightarrow> string \<Rightarrow> real list \<Rightarrow> bool \<times> check_msg" where
  "can_calculate_index db index_name available_wavelengths =
     (case map_of db (upper index_name) of
        None \<Rightarrow> (False, IndexNotFound)
      | Some index \<Rightarrow> check_bands (bands_required index) available_wavelengths)"

subsection \<open>get_band_mapping\<close>

text \<open>The loop over the required bands; \<open>mapping\<close> is the dictionary built so far.\<close>

fun bind_bands ::
  "(string \<times> wl_req) list \<Rightarrow> (real \<times> string) list \<Rightarrow> real list \<Rightarrow> (string \<times> string) list
     \<Rightarrow> py_error + (string \<times> string) list" where
  "bind_bands [] wavelength_to_band available_wl mapping = Inr mapping"
| "bind_bands ((band_name, wavelength_range) # rest) wavelength_to_band available_wl mapping =
     (case find_closest_band wavelength_range available_wl of
        Inl err \<Rightarrow> Inl err
      | Inr closest_wl \<Rightarrow>
          (case map_of wavelength_to_band closest_wl of
             None \<Rightarrow> Inl KeyError
           | Some band \<Rightarrow>
               bind_bands rest wavelength_to_band available_wl
                 (AList.update band_name band mapping)))"

definition get_band_mapping ::
  "(string \<times> SpectralIndex) list \<Rightarrow> string \<Rightarrow> (real \<times> string) list
     \<Rightarrow> py_error + (string \<times> string) list" where
  "get_band_mapping db index_name wavelength_to_band =
     (case map_of db (upper index_name) of
        None \<Rightarrow> Inl KeyError
      | Some index \<Rightarrow>
          bind_bands (bands_required index) wavelength_to_band (map fst wavelength_to_band) [])"

subsection \<open>list_indices and get_themes\<close>

text \<open>
  \<^verbatim>\<open>if theme and ...\<close>: \<^verbatim>\<open>None\<close> and the empty string are both false.
  \<^verbatim>\<open>sorted(self.indices_db.items())\<close> orders the pairs by their keys, which are pairwise
  different, in the order of Python strings (by character code, a proper prefix first).
\<close>

definition truthy :: "string option \<Rightarrow> bool" where
  "truthy s = (case s of None \<Rightarrow> False | Some t \<Rightarrow> t \<noteq> [])"

definition list_indices ::
  "(string \<times> SpectralIndex) list \<Rightarrow> string option \<Rightarrow> SpectralIndex list" where
  "list_indices db theme_arg =
     map snd (filter (\<lambda>(nm, index). \<not> (truthy theme_arg \<and> Some (theme index) \<noteq> theme_arg))
                (sort_key fst db))"

definition get_themes :: "(string \<times> SpectralIndex) list \<Rightarrow> string list" where
  "get_themes db = sort (remdups (map (\<lambda>(nm, index). theme index) db))"

section \<open>main\<close>

text \<open>
  The raster engine is outside the program. It is a parameter: a function that runs one
  command in a state of the engine and returns whether the command succeeded (\<open>False\<close>: it
  raised \<^verbatim>\<open>CalledModuleError\<close>) together with the next state.
\<close>

datatype command =
    Mapcalc string
  | Rename string string
  | Colors string string

type_synonym 'e engine = "command \<Rightarrow> 'e \<Rightarrow> bool \<times> 'e"

text \<open>Two statements inside the \<^verbatim>\<open>try\<close> block: the second runs only if the first succeeded.\<close>

definition and_then :: "('e \<Rightarrow> bool \<times> 'e) \<Rightarrow> ('e \<Rightarrow> bool \<times> 'e) \<Rightarrow> 'e \<Rightarrow> bool \<times> 'e" where
  "and_then first second e = (case first e of (ok, e') \<Rightarrow> if ok then second e' else (False, e'))"

text \<open>\<^verbatim>\<open>index_def.formula(band_mapping)\<close>: each \<^verbatim>\<open>b['ROLE']\<close> is a dictionary lookup.\<close>

fun apply_formula :: "piece list \<Rightarrow> (string \<times> string) list \<Rightarrow> py_error + string" where
  "apply_formula [] b = Inr []"
| "apply_formula (Lit s # ps) b =
     (case apply_formula ps b of Inl err \<Rightarrow> Inl err | Inr r \<Rightarrow> Inr (s @ r))"
| "apply_formula (Band role # ps) b =
     (case map_of b role of
        None \<Rightarrow> Inl KeyError
      | Some band \<Rightarrow> (case apply_formula ps b of Inl err \<Rightarrow> Inl err | Inr r \<Rightarrow> Inr (band @ r)))"

definition norm_formula :: "string \<Rightarrow> int \<Rightarrow> int \<Rightarrow> string" where
  "norm_formula output_name min_val max_val =
     ''('' @ output_name @ '' - '' @ str_int min_val @ '') / ('' @ str_int max_val @ '' - ''
       @ str_int min_val @ '')''"

definition color_table :: "string \<Rightarrow> SpectralIndex \<Rightarrow> string" where
  "color_table index_name index_def =
     (if contains ''NDV'' index_name \<or> contains ''EVI'' index_name
         \<or> theme index_def = ''vegetation'' then ''ndvi''
      else if theme index_def = ''water'' then ''water''
      else ''viridis'')"

text \<open>The body of the \<^verbatim>\<open>try\<close> block; \<open>True\<close> when no command raised.\<close>

definition emit ::
  "'e engine \<Rightarrow> bool \<Rightarrow> SpectralIndex \<Rightarrow> string \<Rightarrow> string \<Rightarrow> string \<Rightarrow> 'e \<Rightarrow> bool \<times> 'e" where
  "emit run flag_n index_def index_name output_name formula_str =
     and_then (run (Mapcalc (output_name @ '' = '' @ formula_str)))
       (and_then
          (case (if flag_n then normalize_range index_def else None) of
             Some (min_val, max_val) \<Rightarrow>
               (let temp_name = output_name @ ''_temp'' in
                and_then
                  (run (Mapcalc (temp_name @ '' = '' @ norm_formula output_name min_val max_val)))
                  (run (Rename temp_name output_name)))
           | None \<Rightarrow> (\<lambda>e. (True, e)))
          (run (Colors output_name (color_table index_name index_def))))"

text \<open>
  One round of the calculation loop, on the counters \<open>(calculated, skipped)\<close> and the state of
  the engine. An exception that the loop does not catch is \<open>Inl\<close>.
\<close>

definition index_step ::
  "'e engine \<Rightarrow> (string \<times> SpectralIndex) list \<Rightarrow> real list \<Rightarrow> (real \<times> string) list \<Rightarrow> string
     \<Rightarrow> bool \<Rightarrow> string \<Rightarrow> nat \<times> nat \<times> 'e \<Rightarrow> py_error + nat \<times> nat \<times> 'e" where
  "index_step run db wavelengths wavelength_to_band output_prefix flag_n index_name st =
     (case st of (calculated, skipped, e) \<Rightarrow>
        if index_name \<notin> set (map fst db) then Inr (calculated, skipped + 1, e)
        else
          (case can_calculate_index db index_name wavelengths of
             (can_calc, msg) \<Rightarrow>
               if \<not> can_calc then Inr (calculated, skipped + 1, e)
               else
                 (case get_band_mapping db index_name wavelength_to_band of
                    Inl err \<Rightarrow> Inl err
                  | Inr band_mapping \<Rightarrow>
                      (case map_of db index_name of
                         None \<Rightarrow> Inl KeyError
                       | Some index_def \<Rightarrow>
                           (case apply_formula (formula index_def) band_mapping of
                              Inl err \<Rightarrow> Inl err
                            | Inr formula_str \<Rightarrow>
                                (let output_name = output_prefix @ ''_'' @ index_name in
                                 case emit run flag_n index_def index_name output_name
                                        formula_str e of
                                   (ok, e') \<Rightarrow>
                                     if ok then Inr (calculated + 1, skipped, e')
                                     else Inr (calculated, skipped + 1, e')))))))"

fun calc_loop ::
  "'e engine \<Rightarrow> (string \<times> SpectralIndex) list \<Rightarrow> real list \<Rightarrow> (real \<times> string) list \<Rightarrow> string
     \<Rightarrow> bool \<Rightarrow> string list \<Rightarrow> nat \<times> nat \<times> 'e \<Rightarrow> py_error + nat \<times> nat \<times> 'e" where
  "calc_loop run db wavelengths wavelength_to_band output_prefix flag_n [] st = Inr st"
| "calc_loop run db wavelengths wavelength_to_band output_prefix flag_n (index_name # rest) st =
     (case index_step run db wavelengths wavelength_to_band output_prefix flag_n index_name st of
        Inl err \<Rightarrow> Inl err
      | Inr st' \<Rightarrow> calc_loop run db wavelengths wavelength_to_band output_prefix flag_n rest st')"

text \<open>The selection of the indices to calculate, from the options \<^verbatim>\<open>theme\<close> and \<^verbatim>\<open>indices\<close>.\<close>

definition select_indices :: "(string \<times> SpectralIndex) list \<Rightarrow> string \<Rightarrow> string \<Rightarrow> string list" where
  "select_indices db theme_opt indices_str =
     (if theme_opt \<noteq> [] then map name (list_indices db (Some theme_opt))
      else if lower indices_str = ''all'' then map fst db
      else map (\<lambda>idx. upper (strip idx)) (split CHR '','' indices_str))"

text \<open>
  \<^verbatim>\<open>main\<close> from the check of the two lengths on, with the list of input bands and the parsed
  wavelengths. The result is the pair of counters of the summary and the last state of the
  engine.
\<close>

definition main_run ::
  "'e engine \<Rightarrow> (string \<times> SpectralIndex) list \<Rightarrow> string list \<Rightarrow> real list \<Rightarrow> string \<Rightarrow> string
     \<Rightarrow> string \<Rightarrow> bool \<Rightarrow> 'e \<Rightarrow> py_error + nat \<times> nat \<times> 'e" where
  "main_run run db input_bands wavelengths output_prefix indices_str theme_opt flag_n e =
     (if length input_bands \<noteq> length wavelengths then Inl Fatal
      else
        (let wavelength_to_band = dict_of (zip wavelengths input_bands);
             indices_to_calc = select_indices db theme_opt indices_str
         in calc_loop run db wavelengths wavelength_to_band output_prefix flag_n
              indices_to_calc (0, 0, e)))"

text \<open>Two engines for concrete runs: one that records every command and succeeds, one that
  records every command and fails.\<close>

definition recording :: "command list engine" where
  "recording c h = (True, h @ [c])"


section \<open>Notions used to state the properties\<close>

text \<open>
  The satisfaction of a required band as the specification words it: a range is satisfied
  iff some available wavelength lies in it, both ends included; a single target wavelength
  is satisfied iff some available wavelength is less than 50 nm away.
\<close>

fun role_satisfied :: "wl_req \<Rightarrow> real list \<Rightarrow> bool" where
  "role_satisfied (RangeReq minNm maxNm) ws = (\<exists>w \<in> set ws. minNm \<le> w \<and> w \<le> maxNm)"
| "role_satisfied (SingleReq t) ws = (\<exists>w \<in> set ws. \<bar>w - t\<bar> < 50)"

text \<open>The roles that a formula looks up in its argument.\<close>

fun formula_roles :: "piece list \<Rightarrow> string list" where
  "formula_roles [] = []"
| "formula_roles (Lit s # ps) = formula_roles ps"
| "formula_roles (Band role # ps) = role # formula_roles ps"


text \<open>
  The expressions handed to the engine are strings. To say what such a string computes, the
  fragment of the engine's expression language that the statements below need is given as
  a syntax tree with its printed form and its value over the reals; \<^verbatim>\<open>float(...)\<close> forces
  floating-point arithmetic and does not change the value of its argument.
\<close>

datatype mexpr =
    MVar string
  | MNum int
  | MAdd mexpr mexpr
  | MSub mexpr mexpr
  | MDiv mexpr mexpr
  | MParen mexpr
  | MFloat mexpr

fun render :: "mexpr \<Rightarrow> string" where
  "render (MVar v) = v"
| "render (MNum i) = str_int i"
| "render (MAdd a b) = render a @ '' + '' @ render b"
| "render (MSub a b) = render a @ '' - '' @ render b"
| "render (MDiv a b) = render a @ '' / '' @ render b"
| "render (MParen a) = ''('' @ render a @ '')''"
| "render (MFloat a) = ''float('' @ render a @ '')''"

fun mvalue :: "(string \<Rightarrow> real) \<Rightarrow> mexpr \<Rightarrow> real" where
  "mvalue env (MVar v) = env v"
| "mvalue env (MNum i) = of_int i"
| "mvalue env (MAdd a b) = mvalue env a + mvalue env b"
| "mvalue env (MSub a b) = mvalue env a - mvalue env b"
| "mvalue env (MDiv a b) = mvalue env a / mvalue env b"
| "mvalue env (MParen a) = mvalue env a"
| "mvalue env (MFloat a) = mvalue env a"

text \<open>The reading of the NDVI formula on two bands and of the normalization expression.\<close>

definition ndvi_expr :: "string \<Rightarrow> string \<Rightarrow> mexpr" where
  "ndvi_expr red nir = MDiv (MFloat (MSub (MVar nir) (MVar red))) (MParen (MAdd (MVar nir) (MVar red)))"

definition norm_expr :: "string \<Rightarrow> int \<Rightarrow> int \<Rightarrow> mexpr" where
  "norm_expr result lo hi =
     MDiv (MParen (MSub (MVar result) (MNum lo))) (MParen (MSub (MNum hi) (MNum lo)))"

section \<open>Lookup by name\<close>

lemma upper_CIrededge: "upper ''CIrededge'' = ''CIREDEDGE''"
  by (simp add: upper_def upper_char_def lower_letters_def upper_letters_def)

text \<open>
  Claim C1. The database holds the index \<open>CIrededge\<close> under the key \<open>CIrededge\<close>, which is
  not in upper case. \<open>can_calculate_index\<close> looks up the upper-cased name \<open>CIREDEDGE\<close>, which
  is not a key: the index is reported as not found under its own name (and under every other
  spelling), and a run that requests it skips it although both its bands are available, while
  NDRE, which requires the same bands, is calculated.
\<close>

theorem can_calculate_index_CIrededge:
  "map_of indices_db ''CIrededge'' = Some idx_CIrededge
   \<and> name idx_CIrededge = ''CIrededge''
   \<and> upper (name idx_CIrededge) \<noteq> name idx_CIrededge
   \<and> map_of indices_db (upper ''CIrededge'') = None
   \<and> can_calculate_index indices_db ''CIrededge'' [705, 800] = (False, IndexNotFound)
   \<and> can_calculate_index indices_db ''NDRE'' [705, 800] = (True, MsgOK)
   \<and> bands_required idx_CIrededge = bands_required idx_NDRE
   \<and> main_run recording indices_db [''b1'', ''b2''] [705, 800] ''out'' ''CIrededge,NDRE'' [] False []
        = Inr (1, 1, [Mapcalc ''out_NDRE = float(b2 - b1) / (b2 + b1)'',
                      Colors ''out_NDRE'' ''ndvi''])"
proof -
  have "main_run recording indices_db [''b1'', ''b2''] [705, 800] ''out'' ''CIrededge,NDRE'' [] False []
        = Inr (1, 1, [Mapcalc ''out_NDRE = float(b2 - b1) / (b2 + b1)'',
                      Colors ''out_NDRE'' ''ndvi''])"
    by code_simp
  then show ?thesis
    by (simp add: can_calculate_index_def upper_CIrededge indices_db_def idx_CIrededge_def
        idx_NDRE_def upper_def upper_char_def lower_letters_def upper_letters_def)
qed

section \<open>The closest band\<close>

text \<open>
  \<open>min_by\<close> returns the first element, in the order of the list, whose key is least: every
  element before it has a strictly larger key, every element after it a key at least as large.
\<close>


lemma min_by_first_min:
  "\<exists>pre post. best # xs = pre @ min_by key best xs # post
     \<and> (\<forall>y \<in> set pre. key (min_by key best xs) < key y)
     \<and> (\<forall>y \<in> set post. key (min_by key best xs) \<le> key y)"
proof (induction xs arbitrary: best)
  case Nil
  show ?case by (intro exI [of _ "[]"]) simp
next
  case (Cons x xs)
  show ?case
  proof (cases "key x < key best")
    case True
    from Cons.IH [of x] obtain pre post where
      split: "x # xs = pre @ min_by key x xs # post"
      and before: "\<forall>y \<in> set pre. key (min_by key x xs) < key y"
      and after: "\<forall>y \<in> set post. key (min_by key x xs) \<le> key y"
      by blast
    have "key (min_by key x xs) \<le> key x"
    proof (cases pre)
      case Nil
      with split have "min_by key x xs = x" by (metis append_Nil list.inject)
      then show ?thesis by simp
    next
      case (Cons p ps)
      with split have "x \<in> set pre" by simp
      with before show ?thesis by fastforce
    qed
    with True have lt: "key (min_by key x xs) < key best" by simp
    have "best # x # xs = (best # pre) @ min_by key x xs # post"
      using split by simp
    moreover have "\<forall>y \<in> set (best # pre). key (min_by key x xs) < key y"
      using before lt by simp
    ultimately show ?thesis
      using after True by (metis min_by.simps(2))
  next
    case False
    from Cons.IH [of best] obtain pre post where
      split: "best # xs = pre @ min_by key best xs # post"
      and before: "\<forall>y \<in> set pre. key (min_by key best xs) < key y"
      and after: "\<forall>y \<in> set post. key (min_by key best xs) \<le> key y"
      by blast
    show ?thesis
    proof (cases pre)
      case Nil
      with split have m: "min_by key best xs = best" and xs: "xs = post"
        by (metis append_Nil list.inject)+
      have "best # x # xs = [] @ best # (x # post)" using xs by simp
      moreover have "\<forall>y \<in> set (x # post). key best \<le> key y"
        using after m False by simp
      ultimately show ?thesis
        using False m by (metis empty_iff list.set(1) min_by.simps(2))
    next
      case (Cons p ps)
      with split have p: "p = best" and xs: "xs = ps @ min_by key best xs # post"
        by (metis append_Cons list.inject)+
      from before Cons p have "key (min_by key best xs) < key best" by simp
      with False have ltx: "key (min_by key best xs) < key x" by simp
      have "best # x # xs = (best # x # ps) @ min_by key best xs # post"
        using xs by simp
      moreover have "\<forall>y \<in> set (best # x # ps). key (min_by key best xs) < key y"
        using before Cons p ltx by simp
      ultimately show ?thesis
        using after False by (metis min_by.simps(2))
    qed
  qed
qed

lemma find_closest_band_first_min:
  assumes "available \<noteq> []"
  shows "\<exists>w pre post. find_closest_band target available = Inr w
           \<and> available = pre @ w # post
           \<and> (\<forall>y \<in> set pre. \<bar>w - target_center target\<bar> < \<bar>y - target_center target\<bar>)
           \<and> (\<forall>y \<in> set post. \<bar>w - target_center target\<bar> \<le> \<bar>y - target_center target\<bar>)"
proof -
  from assms obtain x rest where av: "available = x # rest" by (cases available) auto
  let ?key = "\<lambda>x. \<bar>x - target_center target\<bar>"
  from min_by_first_min [of x rest ?key] obtain pre post where
    "x # rest = pre @ min_by ?key x rest # post"
    "\<forall>y \<in> set pre. ?key (min_by ?key x rest) < ?key y"
    "\<forall>y \<in> set post. ?key (min_by ?key x rest) \<le> ?key y"
    by blast
  moreover have "find_closest_band target available = Inr (min_by ?key x rest)"
    by (simp add: find_closest_band_def py_min_def av)
  ultimately show ?thesis using av by blast
qed



section \<open>Feasibility\<close>

lemma band_found_range:
  "band_found (RangeReq lo hi) ws \<longleftrightarrow> (\<exists>w \<in> set ws. lo \<le> w \<and> w \<le> hi)"
  by (induction ws) auto

lemma band_found_single:
  "band_found (SingleReq t) ws \<longleftrightarrow> (\<exists>w \<in> set ws. \<bar>w - t\<bar> < 50)"
  by (induction ws) auto

lemma band_found_iff: "band_found req ws \<longleftrightarrow> role_satisfied req ws"
  by (cases req) (simp_all add: band_found_range band_found_single)

lemma check_bands_ok:
  "check_bands brs ws = (True, MsgOK) \<longleftrightarrow> (\<forall>(r, req) \<in> set brs. role_satisfied req ws)"
  by (induction brs ws rule: check_bands.induct) (auto simp: band_found_iff)

lemma check_bands_fst:
  "fst (check_bands brs ws) \<longleftrightarrow> (\<forall>(r, req) \<in> set brs. role_satisfied req ws)"
  by (induction brs ws rule: check_bands.induct) (auto simp: band_found_iff)

lemma check_bands_first_missing:
  "\<lbrakk>\<forall>(r', req') \<in> set pre. role_satisfied req' ws; \<not> role_satisfied req ws\<rbrakk>
   \<Longrightarrow> check_bands (pre @ (r, req) # post) ws = (False, BandNotAvailable r req)"
  by (induction pre) (auto simp: band_found_iff)

text \<open>
  Claim C3. For an index found in the database, \<open>can_calculate_index\<close> succeeds iff every
  required band is satisfied, where a range is satisfied iff some available wavelength lies
  in it (both ends included) and a single target iff some available wavelength is less than
  50 nm away; and when the bands before a role \<open>r\<close>, in the order of \<open>bands_required\<close>, are
  satisfied and \<open>r\<close> is not, the result is the failure that names \<open>r\<close> and its requirement,
  whatever the later roles are.
\<close>

theorem can_calculate_index_spec:
  assumes "map_of db (upper index_name) = Some index"
  shows "(fst (can_calculate_index db index_name ws)
            \<longleftrightarrow> (\<forall>(r, req) \<in> set (bands_required index). role_satisfied req ws))
       \<and> ((\<forall>(r, req) \<in> set (bands_required index). role_satisfied req ws)
            \<longrightarrow> can_calculate_index db index_name ws = (True, MsgOK))
       \<and> (\<forall>pre r req post.
             bands_required index = pre @ (r, req) # post
             \<and> (\<forall>(r', req') \<in> set pre. role_satisfied req' ws) \<and> \<not> role_satisfied req ws
             \<longrightarrow> can_calculate_index db index_name ws = (False, BandNotAvailable r req))"
  using assms
  by (simp add: can_calculate_index_def check_bands_fst check_bands_first_missing
        check_bands_ok [symmetric])

theorem can_calculate_index_spec_witness:
  "map_of indices_db (upper ''ndvi'') = Some idx_NDVI
   \<and> can_calculate_index indices_db ''ndvi'' [665, 850] = (True, MsgOK)
   \<and> can_calculate_index indices_db ''ndvi'' [690, 760] = (True, MsgOK)
   \<and> can_calculate_index indices_db ''ndvi'' [665] = (False, BandNotAvailable ''NIR'' (RangeReq 760 900))
   \<and> can_calculate_index indices_db ''ndvi'' [500] = (False, BandNotAvailable ''RED'' (RangeReq 620 690))"
proof -
  have up: "upper ''ndvi'' = ''NDVI''"
    by (simp add: upper_def upper_char_def lower_letters_def upper_letters_def)
  have look: "map_of indices_db (upper ''ndvi'') = Some idx_NDVI"
    by (simp add: up indices_db_def)
  have br: "bands_required idx_NDVI = [] @ (''RED'', RangeReq 620 690) # [(''NIR'', RangeReq 760 900)]"
    "bands_required idx_NDVI = [(''RED'', RangeReq 620 690)] @ (''NIR'', RangeReq 760 900) # []"
    by (simp_all add: idx_NDVI_def)
  note spec = can_calculate_index_spec [OF look]
  have first_missing:
    "can_calculate_index indices_db ''ndvi'' ws = (False, BandNotAvailable r req)"
    if "bands_required idx_NDVI = pre @ (r, req) # post"
      and "\<forall>(r', req') \<in> set pre. role_satisfied req' ws" and "\<not> role_satisfied req ws"
    for ws pre r req post
    using spec [of ws] that by blast
  have "can_calculate_index indices_db ''ndvi'' [665, 850] = (True, MsgOK)"
    using spec [of "[665, 850]"] by (simp add: idx_NDVI_def)
  moreover have "can_calculate_index indices_db ''ndvi'' [690, 760] = (True, MsgOK)"
    using spec [of "[690, 760]"] by (simp add: idx_NDVI_def)
  moreover have "can_calculate_index indices_db ''ndvi'' [665]
      = (False, BandNotAvailable ''NIR'' (RangeReq 760 900))"
    by (rule first_missing [OF br(2)]) simp_all
  moreover have "can_calculate_index indices_db ''ndvi'' [500]
      = (False, BandNotAvailable ''RED'' (RangeReq 620 690))"
    by (rule first_missing [OF br(1)]) simp_all
  ultimately show ?thesis using look by simp
qed

section \<open>The band mapping\<close>

lemma find_closest_band_in_set:
  assumes "available \<noteq> []"
  shows "\<exists>w \<in> set available. find_closest_band target available = Inr w"
  using find_closest_band_first_min [OF assms, of target] by auto

lemma bind_bands_ok:
  assumes "brs \<noteq> [] \<longrightarrow> available \<noteq> []" and "set available \<subseteq> fst ` set w2b"
  shows "\<exists>m'. bind_bands brs w2b available m = Inr m'
           \<and> fst ` set m' = fst ` set m \<union> fst ` set brs
           \<and> (distinct (map fst m) \<longrightarrow> distinct (map fst m'))
           \<and> (\<forall>r. r \<notin> fst ` set brs \<longrightarrow> map_of m' r = map_of m r)
           \<and> (distinct (map fst brs) \<longrightarrow>
                (\<forall>(r, req) \<in> set brs. \<exists>w band. find_closest_band req available = Inr w
                    \<and> map_of w2b w = Some band \<and> map_of m' r = Some band))"
  using assms
proof (induction brs arbitrary: m)
  case Nil
  then show ?case by simp
next
  case (Cons br brs)
  obtain r req where br: "br = (r, req)" by (cases br)
  from Cons.prems have ne: "available \<noteq> []" by simp
  from find_closest_band_in_set [OF ne, of req] obtain w where
    w: "w \<in> set available" "find_closest_band req available = Inr w" by blast
  with Cons.prems(2) have "w \<in> fst ` set w2b" by blast
  then obtain band where band: "map_of w2b w = Some band"
    by (metis domD dom_map_of_conv_image_fst)
  from Cons.IH [of "AList.update r band m"] ne Cons.prems(2) obtain m' where
    run: "bind_bands brs w2b available (AList.update r band m) = Inr m'"
    and keys: "fst ` set m' = fst ` set (AList.update r band m) \<union> fst ` set brs"
    and dist: "distinct (map fst (AList.update r band m)) \<longrightarrow> distinct (map fst m')"
    and other: "\<forall>r'. r' \<notin> fst ` set brs \<longrightarrow> map_of m' r' = map_of (AList.update r band m) r'"
    and bound: "distinct (map fst brs) \<longrightarrow>
                (\<forall>(r', req') \<in> set brs. \<exists>w band. find_closest_band req' available = Inr w
                    \<and> map_of w2b w = Some band \<and> map_of m' r' = Some band)"
    by blast
  have 1: "bind_bands (br # brs) w2b available m = Inr m'"
    using run w band by (simp add: br)
  have 2: "fst ` set m' = fst ` set m \<union> fst ` set (br # brs)"
    using keys by (auto simp: br dom_update)
  have 3: "distinct (map fst m) \<longrightarrow> distinct (map fst m')"
    using dist by (simp add: distinct_update)
  have 4: "\<forall>r'. r' \<notin> fst ` set (br # brs) \<longrightarrow> map_of m' r' = map_of m r'"
    using other by (auto simp: br update_conv')
  have 5: "distinct (map fst (br # brs)) \<longrightarrow>
                (\<forall>(r', req') \<in> set (br # brs). \<exists>w band. find_closest_band req' available = Inr w
                    \<and> map_of w2b w = Some band \<and> map_of m' r' = Some band)"
  proof
    assume d: "distinct (map fst (br # brs))"
    then have "r \<notin> fst ` set brs" by (simp add: br)
    with other have "map_of m' r = Some band" by (simp add: update_conv')
    with w band have "\<exists>w band. find_closest_band req available = Inr w
                    \<and> map_of w2b w = Some band \<and> map_of m' r = Some band" by blast
    moreover from d bound have "\<forall>(r', req') \<in> set brs. \<exists>w band. find_closest_band req' available = Inr w
                    \<and> map_of w2b w = Some band \<and> map_of m' r' = Some band" by simp
    ultimately show "\<forall>(r', req') \<in> set (br # brs). \<exists>w band. find_closest_band req' available = Inr w
                    \<and> map_of w2b w = Some band \<and> map_of m' r' = Some band"
      by (simp add: br)
  qed
  from 1 2 3 4 5 show ?case by blast
qed

lemma apply_formula_ok:
  "set (formula_roles ps) \<subseteq> fst ` set b \<Longrightarrow> \<exists>s. apply_formula ps b = Inr s"
proof (induction ps b rule: apply_formula.induct)
  case (1 b)
  then show ?case by simp
next
  case (2 s ps b)
  then show ?case by auto
next
  case (3 role ps b)
  then have "role \<in> fst ` set b" by simp
  then obtain band where "map_of b role = Some band"
    by (metis domD dom_map_of_conv_image_fst)
  with 3 show ?case by auto
qed

lemma check_bands_nonempty:
  "fst (check_bands brs ws) \<Longrightarrow> brs \<noteq> [] \<Longrightarrow> ws \<noteq> []"
  by (cases brs) (auto split: if_splits)

lemma get_band_mapping_ok:
  assumes look: "map_of db (upper index_name) = Some index"
    and ne: "bands_required index \<noteq> [] \<longrightarrow> w2b \<noteq> []"
  shows "\<exists>mapping. get_band_mapping db index_name w2b = Inr mapping
      \<and> fst ` set mapping = fst ` set (bands_required index)
      \<and> distinct (map fst mapping)
      \<and> (distinct (map fst (bands_required index)) \<longrightarrow>
           (\<forall>(role, req) \<in> set (bands_required index). \<exists>w band.
               find_closest_band req (map fst w2b) = Inr w
               \<and> map_of w2b w = Some band \<and> map_of mapping role = Some band))"
proof -
  have "bands_required index \<noteq> [] \<longrightarrow> map fst w2b \<noteq> []" using ne by simp
  moreover have "set (map fst w2b) \<subseteq> fst ` set w2b" by simp
  ultimately show ?thesis
    using bind_bands_ok [of "bands_required index" "map fst w2b" w2b "[]"] look
    by (simp add: get_band_mapping_def) blast
qed

lemma get_band_mapping_feasible:
  assumes feasible: "fst (can_calculate_index db index_name ws)"
    and keys: "set ws = fst ` set w2b"
  shows "\<exists>index mapping. map_of db (upper index_name) = Some index
      \<and> get_band_mapping db index_name w2b = Inr mapping
      \<and> fst ` set mapping = fst ` set (bands_required index)
      \<and> distinct (map fst mapping)
      \<and> (distinct (map fst (bands_required index)) \<longrightarrow>
           (\<forall>(role, req) \<in> set (bands_required index). \<exists>w band.
               find_closest_band req (map fst w2b) = Inr w
               \<and> map_of w2b w = Some band \<and> map_of mapping role = Some band))
      \<and> (set (formula_roles (formula index)) \<subseteq> fst ` set (bands_required index) \<longrightarrow>
           (\<exists>s. apply_formula (formula index) mapping = Inr s))"
proof -
  from feasible obtain index where look: "map_of db (upper index_name) = Some index"
    by (auto simp: can_calculate_index_def split: option.splits)
  with feasible have "fst (check_bands (bands_required index) ws)"
    by (simp add: can_calculate_index_def)
  then have "bands_required index \<noteq> [] \<longrightarrow> ws \<noteq> []"
    using check_bands_nonempty by blast
  with keys have ne: "bands_required index \<noteq> [] \<longrightarrow> w2b \<noteq> []" by auto
  from get_band_mapping_ok [OF look ne] obtain mapping where
    m: "get_band_mapping db index_name w2b = Inr mapping"
      "fst ` set mapping = fst ` set (bands_required index)"
      "distinct (map fst mapping)"
      "distinct (map fst (bands_required index)) \<longrightarrow>
           (\<forall>(role, req) \<in> set (bands_required index). \<exists>w band.
               find_closest_band req (map fst w2b) = Inr w
               \<and> map_of w2b w = Some band \<and> map_of mapping role = Some band)"
    by blast
  have "set (formula_roles (formula index)) \<subseteq> fst ` set (bands_required index) \<longrightarrow>
           (\<exists>s. apply_formula (formula index) mapping = Inr s)"
    using apply_formula_ok [of "formula index" mapping] m(2) by simp
  with look m show ?thesis by blast
qed

text \<open>
  Claim C4. When the feasibility check succeeds on wavelengths that are the keys of the
  wavelength dictionary, \<open>get_band_mapping\<close> returns a mapping whose keys are exactly the
  required roles of the index; each role is bound to the band of the wavelength that
  \<open>find_closest_band\<close> selects among all the keys of the dictionary; the formula, which looks
  up required roles only, is then applied without a missing key. Two roles may share a band:
  for CAI on the wavelengths 2050 and 2200, SWIR1 and SWIR3 are both bound to the first band.
\<close>

theorem get_band_mapping_spec:
  assumes feasible: "fst (can_calculate_index db index_name ws)"
    and keys: "set ws = fst ` set w2b"
  shows "(\<exists>index mapping. map_of db (upper index_name) = Some index
      \<and> get_band_mapping db index_name w2b = Inr mapping
      \<and> fst ` set mapping = fst ` set (bands_required index)
      \<and> distinct (map fst mapping)
      \<and> (distinct (map fst (bands_required index)) \<longrightarrow>
           (\<forall>(role, req) \<in> set (bands_required index). \<exists>w band.
               find_closest_band req (map fst w2b) = Inr w
               \<and> map_of w2b w = Some band \<and> map_of mapping role = Some band))
      \<and> (set (formula_roles (formula index)) \<subseteq> fst ` set (bands_required index) \<longrightarrow>
           (\<exists>s. apply_formula (formula index) mapping = Inr s)))
    \<and> get_band_mapping indices_db ''CAI'' [(2050, ''b1''), (2200, ''b2'')]
        = Inr [(''SWIR1'', ''b1''), (''SWIR2'', ''b2''), (''SWIR3'', ''b1'')]"
proof -
  have "upper ''CAI'' = ''CAI''"
    by (simp add: upper_def upper_char_def lower_letters_def upper_letters_def)
  then have "get_band_mapping indices_db ''CAI'' [(2050, ''b1''), (2200, ''b2'')]
        = Inr [(''SWIR1'', ''b1''), (''SWIR2'', ''b2''), (''SWIR3'', ''b1'')]"
    by (simp add: get_band_mapping_def indices_db_def idx_CAI_def find_closest_band_def
          py_min_def)
  with get_band_mapping_feasible [OF feasible keys] show ?thesis by blast
qed

theorem get_band_mapping_spec_witness:
  "fst (can_calculate_index indices_db ''CAI'' [2050, 2200])
   \<and> set [2050, 2200] = fst ` set [(2050 :: real, ''b1''), (2200, ''b2'')]
   \<and> (\<exists>index mapping. map_of indices_db (upper ''CAI'') = Some index
        \<and> get_band_mapping indices_db ''CAI'' [(2050, ''b1''), (2200, ''b2'')] = Inr mapping
        \<and> fst ` set mapping = fst ` set (bands_required index)
        \<and> map_of mapping ''SWIR1'' = Some ''b1'' \<and> map_of mapping ''SWIR3'' = Some ''b1'')"
proof -
  have up: "upper ''CAI'' = ''CAI''"
    by (simp add: upper_def upper_char_def lower_letters_def upper_letters_def)
  have feasible: "fst (can_calculate_index indices_db ''CAI'' [2050, 2200])"
    by (simp add: can_calculate_index_def up indices_db_def idx_CAI_def)
  have keys: "set [2050, 2200] = fst ` set [(2050 :: real, ''b1''), (2200, ''b2'')]"
    by simp
  from get_band_mapping_spec [OF feasible keys] obtain index mapping where
    "map_of indices_db (upper ''CAI'') = Some index"
    "get_band_mapping indices_db ''CAI'' [(2050, ''b1''), (2200, ''b2'')] = Inr mapping"
    "fst ` set mapping = fst ` set (bands_required index)"
    "get_band_mapping indices_db ''CAI'' [(2050, ''b1''), (2200, ''b2'')]
        = Inr [(''SWIR1'', ''b1''), (''SWIR2'', ''b2''), (''SWIR3'', ''b1'')]"
    by blast
  moreover from this have "map_of mapping ''SWIR1'' = Some ''b1''"
    and "map_of mapping ''SWIR3'' = Some ''b1''" by auto
  ultimately show ?thesis using feasible keys by blast
qed

section \<open>Duplicate wavelengths\<close>

lemma map_of_fold_update:
  "map_of (fold (\<lambda>(k, v). AList.update k v) ps d) = map_of d ++ map_of (rev ps)"
proof (induction ps arbitrary: d)
  case Nil
  show ?case by simp
next
  case (Cons p ps)
  obtain k v where p: "p = (k, v)" by (cases p)
  have "map_of (fold (\<lambda>(k, v). AList.update k v) (p # ps) d)
        = map_of (AList.update k v d) ++ map_of (rev ps)"
    using Cons.IH [of "AList.update k v d"] by (simp add: p)
  also have "\<dots> = map_of d ++ map_of (rev (p # ps))"
    by (rule ext) (simp add: p update_conv' map_add_def split: option.splits)
  finally show ?case .
qed

lemma keys_fold_update:
  "fst ` set (fold (\<lambda>(k, v). AList.update k v) ps d) = fst ` set d \<union> fst ` set ps"
proof (induction ps arbitrary: d)
  case Nil
  show ?case by simp
next
  case (Cons p ps)
  obtain k v where p: "p = (k, v)" by (cases p)
  have "fst ` set (fold (\<lambda>(k, v). AList.update k v) (p # ps) d)
        = fst ` set (AList.update k v d) \<union> fst ` set ps"
    using Cons.IH [of "AList.update k v d"] by (simp add: p)
  also have "\<dots> = fst ` set d \<union> fst ` set (p # ps)"
    unfolding p dom_update by auto
  finally show ?case .
qed

lemma distinct_fold_update:
  "distinct (map fst d) \<Longrightarrow> distinct (map fst (fold (\<lambda>(k, v). AList.update k v) ps d))"
  by (induction ps arbitrary: d) (auto simp: distinct_update)

lemma map_of_dict_of: "map_of (dict_of ps) = map_of (rev ps)"
  by (simp add: dict_of_def map_of_fold_update)

lemma keys_dict_of: "fst ` set (dict_of ps) = fst ` set ps"
  by (simp add: dict_of_def keys_fold_update)

lemma distinct_dict_of: "distinct (map fst (dict_of ps))"
  by (simp add: dict_of_def distinct_fold_update)

lemma map_of_rev_last:
  "\<lbrakk>i < length ps; ps ! i = (k, v); \<forall>j. i < j \<and> j < length ps \<longrightarrow> fst (ps ! j) \<noteq> k\<rbrakk>
   \<Longrightarrow> map_of (rev ps) k = Some v"
proof (induction ps rule: rev_induct)
  case Nil
  then show ?case by simp
next
  case (snoc p ps)
  show ?case
  proof (cases "i < length ps")
    case True
    from snoc.prems(3) [rule_format, of "length ps"] True
    have "fst ((ps @ [p]) ! length ps) \<noteq> k" by simp
    then have pk: "fst p \<noteq> k" by simp
    have "\<forall>j. i < j \<and> j < length ps \<longrightarrow> fst (ps ! j) \<noteq> k"
    proof (intro allI impI)
      fix j assume j: "i < j \<and> j < length ps"
      with snoc.prems(3) [rule_format, of j] have "fst ((ps @ [p]) ! j) \<noteq> k" by simp
      with j show "fst (ps ! j) \<noteq> k" by (simp add: nth_append)
    qed
    moreover from snoc.prems(2) True have "ps ! i = (k, v)" by (simp add: nth_append)
    ultimately have "map_of (rev ps) k = Some v" using snoc.IH True by blast
    with pk show ?thesis by (cases p) simp
  next
    case False
    with snoc.prems(1) have "i = length ps" by simp
    with snoc.prems(2) have "p = (k, v)" by simp
    then show ?thesis by simp
  qed
qed

lemma last_occurrence:
  "x \<in> set xs \<Longrightarrow> \<exists>i < length xs. xs ! i = x \<and> (\<forall>j. i < j \<and> j < length xs \<longrightarrow> xs ! j \<noteq> x)"
proof (induction xs rule: rev_induct)
  case Nil
  then show ?case by simp
next
  case (snoc y xs)
  show ?case
  proof (cases "y = x")
    case True
    then show ?thesis by (intro exI [of _ "length xs"]) auto
  next
    case False
    with snoc obtain i where i: "i < length xs" "xs ! i = x"
      "\<forall>j. i < j \<and> j < length xs \<longrightarrow> xs ! j \<noteq> x" by auto
    have "\<forall>j. i < j \<and> j < length (xs @ [y]) \<longrightarrow> (xs @ [y]) ! j \<noteq> x"
    proof (intro allI impI)
      fix j assume j: "i < j \<and> j < length (xs @ [y])"
      show "(xs @ [y]) ! j \<noteq> x"
      proof (cases "j < length xs")
        case True
        with i(3) j show ?thesis by (simp add: nth_append)
      next
        case False
        with j have "j = length xs" by simp
        with \<open>y \<noteq> x\<close> show ?thesis by simp
      qed
    qed
    with i(1,2) show ?thesis
      by (intro exI [of _ i]) (simp add: nth_append)
  qed
qed

lemma dict_of_zip_last:
  assumes len: "length ws = length bs" and i: "i < length ws"
    and last: "\<forall>j. i < j \<and> j < length ws \<longrightarrow> ws ! j \<noteq> ws ! i"
  shows "map_of (dict_of (zip ws bs)) (ws ! i) = Some (bs ! i)"
proof -
  have "map_of (rev (zip ws bs)) (ws ! i) = Some (bs ! i)"
  proof (rule map_of_rev_last [of i])
    show "i < length (zip ws bs)" using len i by simp
    show "zip ws bs ! i = (ws ! i, bs ! i)" using len i by simp
    show "\<forall>j. i < j \<and> j < length (zip ws bs) \<longrightarrow> fst (zip ws bs ! j) \<noteq> ws ! i"
      using len last by simp
  qed
  then show ?thesis by (simp add: map_of_dict_of)
qed

text \<open>
  Claim C9. For input lists of equal length, with or without duplicate wavelengths, the
  dictionary \<open>dict(zip(wavelengths, input_bands))\<close> has every wavelength as a key once, and the
  value of a wavelength is the band at its last position in the input: the later entry wins.
  For a known index \<open>get_band_mapping\<close> returns a mapping (no exception), in which every
  required role is bound to the band at the last position of the wavelength chosen for it.
\<close>

theorem duplicate_wavelengths_spec:
  assumes len: "length ws = length bs" and ne: "ws \<noteq> []"
    and look: "map_of db (upper index_name) = Some index"
    and roles: "distinct (map fst (bands_required index))"
  shows "distinct (map fst (dict_of (zip ws bs)))
      \<and> set (map fst (dict_of (zip ws bs))) = set ws
      \<and> (\<forall>i < length ws. (\<forall>j. i < j \<and> j < length ws \<longrightarrow> ws ! j \<noteq> ws ! i)
            \<longrightarrow> map_of (dict_of (zip ws bs)) (ws ! i) = Some (bs ! i))
      \<and> (\<exists>mapping. get_band_mapping db index_name (dict_of (zip ws bs)) = Inr mapping
            \<and> fst ` set mapping = fst ` set (bands_required index)
            \<and> (\<forall>(role, req) \<in> set (bands_required index). \<exists>i < length ws.
                  find_closest_band req (map fst (dict_of (zip ws bs))) = Inr (ws ! i)
                  \<and> (\<forall>j. i < j \<and> j < length ws \<longrightarrow> ws ! j \<noteq> ws ! i)
                  \<and> map_of mapping role = Some (bs ! i)))"
proof -
  let ?d = "dict_of (zip ws bs)"
  have "fst ` set (zip ws bs) = set ws"
    using len by (metis map_fst_zip set_map)
  then have keys: "set (map fst ?d) = set ws"
    by (simp add: keys_dict_of)
  have last: "\<forall>i < length ws. (\<forall>j. i < j \<and> j < length ws \<longrightarrow> ws ! j \<noteq> ws ! i)
            \<longrightarrow> map_of ?d (ws ! i) = Some (bs ! i)"
    using dict_of_zip_last [OF len] by blast
  from keys ne have "?d \<noteq> []" by auto
  then have "bands_required index \<noteq> [] \<longrightarrow> ?d \<noteq> []" by simp
  from get_band_mapping_ok [OF look this] roles obtain mapping where
    m: "get_band_mapping db index_name ?d = Inr mapping"
      "fst ` set mapping = fst ` set (bands_required index)"
      and bound: "\<forall>(role, req) \<in> set (bands_required index). \<exists>w band.
               find_closest_band req (map fst ?d) = Inr w
               \<and> map_of ?d w = Some band \<and> map_of mapping role = Some band"
    by blast
  have "\<forall>(role, req) \<in> set (bands_required index). \<exists>i < length ws.
                  find_closest_band req (map fst ?d) = Inr (ws ! i)
                  \<and> (\<forall>j. i < j \<and> j < length ws \<longrightarrow> ws ! j \<noteq> ws ! i)
                  \<and> map_of mapping role = Some (bs ! i)"
  proof (clarify)
    fix role req assume "(role, req) \<in> set (bands_required index)"
    with bound obtain w band where
      w: "find_closest_band req (map fst ?d) = Inr w" "map_of ?d w = Some band"
        "map_of mapping role = Some band" by blast
    from w(2) have "w \<in> fst ` set ?d" by (metis domI dom_map_of_conv_image_fst)
    with keys have "w \<in> set ws" by simp
    from last_occurrence [OF this] obtain i where
      i: "i < length ws" "ws ! i = w" "\<forall>j. i < j \<and> j < length ws \<longrightarrow> ws ! j \<noteq> w" by blast
    with last have "map_of ?d w = Some (bs ! i)" by blast
    with w(2) have "band = bs ! i" by simp
    with w i show "\<exists>i < length ws.
                  find_closest_band req (map fst ?d) = Inr (ws ! i)
                  \<and> (\<forall>j. i < j \<and> j < length ws \<longrightarrow> ws ! j \<noteq> ws ! i)
                  \<and> map_of mapping role = Some (bs ! i)" by blast
  qed
  with m keys last distinct_dict_of [of "zip ws bs"] show ?thesis by blast
qed

theorem duplicate_wavelengths_spec_witness:
  "length [705, 800, 705 :: real] = length [''b1'', ''b2'', ''b3'']
   \<and> [705, 800, 705 :: real] \<noteq> []
   \<and> map_of indices_db (upper ''NDRE'') = Some idx_NDRE
   \<and> distinct (map fst (bands_required idx_NDRE))
   \<and> dict_of (zip [705, 800, 705 :: real] [''b1'', ''b2'', ''b3'']) = [(705, ''b3''), (800, ''b2'')]
   \<and> map_of (dict_of (zip [705, 800, 705 :: real] [''b1'', ''b2'', ''b3''])) 705 = Some ''b3''
   \<and> get_band_mapping indices_db ''NDRE'' (dict_of (zip [705, 800, 705] [''b1'', ''b2'', ''b3'']))
        = Inr [(''REDEDGE'', ''b3''), (''NIR'', ''b2'')]"
proof -
  have len: "length [705, 800, 705 :: real] = length [''b1'', ''b2'', ''b3'']" by simp
  have ne: "[705, 800, 705 :: real] \<noteq> []" by simp
  have up: "upper ''NDRE'' = ''NDRE''"
    by (simp add: upper_def upper_char_def lower_letters_def upper_letters_def)
  have look: "map_of indices_db (upper ''NDRE'') = Some idx_NDRE"
    by (simp add: up indices_db_def)
  have roles: "distinct (map fst (bands_required idx_NDRE))"
    by (simp add: idx_NDRE_def)
  have d: "dict_of (zip [705, 800, 705 :: real] [''b1'', ''b2'', ''b3'']) = [(705, ''b3''), (800, ''b2'')]"
    by (simp add: dict_of_def)
  note spec = duplicate_wavelengths_spec [OF len ne look roles]
  then have "\<forall>i < length [705, 800, 705 :: real].
      (\<forall>j. i < j \<and> j < length [705, 800, 705 :: real]
            \<longrightarrow> [705, 800, 705 :: real] ! j \<noteq> [705, 800, 705] ! i)
      \<longrightarrow> map_of (dict_of (zip [705, 800, 705 :: real] [''b1'', ''b2'', ''b3'']))
            ([705, 800, 705] ! i) = Some ([''b1'', ''b2'', ''b3''] ! i)"
    by blast
  from this [rule_format, of 2]
  have later: "map_of (dict_of (zip [705, 800, 705 :: real] [''b1'', ''b2'', ''b3''])) 705 = Some ''b3''"
    by simp
  have "get_band_mapping indices_db ''NDRE'' [(705, ''b3''), (800, ''b2'')]
        = Inr [(''REDEDGE'', ''b3''), (''NIR'', ''b2'')]"
    using look by (simp add: get_band_mapping_def idx_NDRE_def find_closest_band_def py_min_def)
  with len ne look roles d later show ?thesis by simp
qed

section \<open>The calculation loop\<close>








section \<open>The expressions handed to the engine\<close>

lemma render_norm_expr:
  "render (norm_expr result lo hi) = norm_formula result lo hi"
  by (simp add: norm_expr_def norm_formula_def)

text \<open>
  Claim C6. For the input bands b1, b2 with the wavelengths 665, 850 and the request NDVI, the
  run hands to the engine one expression, for the output name \<open>prefix @ ''_NDVI''\<close>; the
  expression is the text \<open>float(b2 - b1) / (b2 + b1)\<close>, which carries the coercion
  \<open>float(\<close> and whose value is \<open>(b2 - b1) / (b2 + b1)\<close>; the color table is set on the same
  output name.
\<close>

theorem ndvi_expression:
  "main_run recording indices_db [''b1'', ''b2''] [665, 850] prefix ''NDVI'' [] False []
     = Inr (1, 0, [Mapcalc (prefix @ ''_NDVI'' @ '' = '' @ render (ndvi_expr ''b1'' ''b2'')),
                   Colors (prefix @ ''_NDVI'') ''ndvi''])
   \<and> render (ndvi_expr ''b1'' ''b2'') = ''float(b2 - b1) / (b2 + b1)''
   \<and> contains ''float('' (render (ndvi_expr ''b1'' ''b2''))
   \<and> mvalue env (ndvi_expr ''b1'' ''b2'') = (env ''b2'' - env ''b1'') / (env ''b2'' + env ''b1'')"
proof -
  have r: "render (ndvi_expr ''b1'' ''b2'') = ''float(b2 - b1) / (b2 + b1)''"
    by (simp add: ndvi_expr_def)
  have "main_run recording indices_db [''b1'', ''b2''] [665, 850] prefix ''NDVI'' [] False []
     = Inr (1, 0, [Mapcalc (prefix @ ''_NDVI'' @ '' = '' @ ''float(b2 - b1) / (b2 + b1)''),
                   Colors (prefix @ ''_NDVI'') ''ndvi''])"
    by code_simp simp
  moreover have "contains ''float('' ''float(b2 - b1) / (b2 + b1)''"
    by simp
  moreover have "mvalue env (ndvi_expr ''b1'' ''b2'') = (env ''b2'' - env ''b1'') / (env ''b2'' + env ''b1'')"
    by (simp add: ndvi_expr_def)
  ultimately show ?thesis by (simp only: r)
qed

theorem ndvi_expression_witness:
  "main_run recording indices_db [''b1'', ''b2''] [665, 850] ''field'' ''NDVI'' [] False []
     = Inr (1, 0, [Mapcalc ''field_NDVI = float(b2 - b1) / (b2 + b1)'',
                   Colors ''field_NDVI'' ''ndvi''])
   \<and> mvalue (\<lambda>v. if v = ''b2'' then 3 else 1) (ndvi_expr ''b1'' ''b2'') = 1 / 2"
  using ndvi_expression [of "''field''" "\<lambda>v. if v = ''b2'' then 3 else 1"] by simp

text \<open>
  Claim C7. With the normalization flag set, an index that has a normalization range
  \<open>(lo, hi)\<close> gets, after its primary expression, a second expression over the primary
  output whose value is \<open>(result - lo) / (hi - lo)\<close>, written to a temporary name that is
  then renamed over the output; for the range (-1, 1) and a primary result 0 the value is
  1/2. An index without a range gets the primary expression and the color table only, and
  is counted as calculated like the others.
\<close>

theorem emit_normalization:
  "(normalize_range index_def = Some (lo, hi) \<longrightarrow>
      emit recording True index_def index_name output_name formula_str h
        = (True, h @ [Mapcalc (output_name @ '' = '' @ formula_str),
                      Mapcalc (output_name @ ''_temp'' @ '' = '' @ render (norm_expr output_name lo hi)),
                      Rename (output_name @ ''_temp'') output_name,
                      Colors output_name (color_table index_name index_def)]))
   \<and> (normalize_range index_def = None \<longrightarrow>
      emit recording True index_def index_name output_name formula_str h
        = (True, h @ [Mapcalc (output_name @ '' = '' @ formula_str),
                      Colors output_name (color_table index_name index_def)]))
   \<and> mvalue env (norm_expr output_name lo hi)
        = (env output_name - of_int lo) / (of_int hi - of_int lo)
   \<and> (env output_name = 0 \<longrightarrow> mvalue env (norm_expr output_name (- 1) 1) = 1 / 2)
   \<and> render (norm_expr ''out_NDVI'' (- 1) 1) = ''(out_NDVI - -1) / (1 - -1)''
   \<and> main_run recording indices_db [''b1'', ''b2''] [665, 850] ''out'' ''NDVI,MSAVI'' [] True []
        = Inr (2, 0,
            [Mapcalc ''out_NDVI = float(b2 - b1) / (b2 + b1)'',
             Mapcalc ''out_NDVI_temp = (out_NDVI - -1) / (1 - -1)'',
             Rename ''out_NDVI_temp'' ''out_NDVI'',
             Colors ''out_NDVI'' ''ndvi'',
             Mapcalc ''out_MSAVI = (2 * b2 + 1 - sqrt((2 * b2 + 1)^2 - 8 * (b2 - b1))) / 2'',
             Colors ''out_MSAVI'' ''ndvi''])"
proof -
  have a: "normalize_range index_def = Some (lo, hi) \<longrightarrow>
      emit recording True index_def index_name output_name formula_str h
        = (True, h @ [Mapcalc (output_name @ '' = '' @ formula_str),
                      Mapcalc (output_name @ ''_temp'' @ '' = '' @ render (norm_expr output_name lo hi)),
                      Rename (output_name @ ''_temp'') output_name,
                      Colors output_name (color_table index_name index_def)])"
    by (simp add: emit_def and_then_def recording_def render_norm_expr)
  have b: "normalize_range index_def = None \<longrightarrow>
      emit recording True index_def index_name output_name formula_str h
        = (True, h @ [Mapcalc (output_name @ '' = '' @ formula_str),
                      Colors output_name (color_table index_name index_def)])"
    by (simp add: emit_def and_then_def recording_def)
  have c: "mvalue env (norm_expr output_name lo hi)
        = (env output_name - of_int lo) / (of_int hi - of_int lo)"
    by (simp add: norm_expr_def)
  have d: "env output_name = 0 \<longrightarrow> mvalue env (norm_expr output_name (- 1) 1) = 1 / 2"
    by (simp add: norm_expr_def)
  have e: "render (norm_expr ''out_NDVI'' (- 1) 1) = ''(out_NDVI - -1) / (1 - -1)''"
    by code_simp
  have f: "main_run recording indices_db [''b1'', ''b2''] [665, 850] ''out'' ''NDVI,MSAVI'' [] True []
        = Inr (2, 0,
            [Mapcalc ''out_NDVI = float(b2 - b1) / (b2 + b1)'',
             Mapcalc ''out_NDVI_temp = (out_NDVI - -1) / (1 - -1)'',
             Rename ''out_NDVI_temp'' ''out_NDVI'',
             Colors ''out_NDVI'' ''ndvi'',
             Mapcalc ''out_MSAVI = (2 * b2 + 1 - sqrt((2 * b2 + 1)^2 - 8 * (b2 - b1))) / 2'',
             Colors ''out_MSAVI'' ''ndvi''])"
    by code_simp
  from a b c d e f show ?thesis by blast
qed

theorem emit_normalization_witness:
  "normalize_range idx_NDVI = Some (- 1, 1)
   \<and> emit recording True idx_NDVI ''NDVI'' ''out_NDVI'' ''f'' []
       = (True, [Mapcalc ''out_NDVI = f'',
                 Mapcalc ''out_NDVI_temp = (out_NDVI - -1) / (1 - -1)'',
                 Rename ''out_NDVI_temp'' ''out_NDVI'',
                 Colors ''out_NDVI'' ''ndvi''])
   \<and> normalize_range idx_MSAVI = None
   \<and> emit recording True idx_MSAVI ''MSAVI'' ''out_MSAVI'' ''f'' []
       = (True, [Mapcalc ''out_MSAVI = f'', Colors ''out_MSAVI'' ''ndvi''])
   \<and> mvalue (\<lambda>v. 0) (norm_expr ''out_NDVI'' (- 1) 1) = 1 / 2"
proof -
  have n1: "normalize_range idx_NDVI = Some (- 1, 1)" by (simp add: idx_NDVI_def)
  have n2: "normalize_range idx_MSAVI = None" by (simp add: idx_MSAVI_def)
  have c1: "color_table ''NDVI'' idx_NDVI = ''ndvi''" by (simp add: color_table_def)
  have c2: "color_table ''MSAVI'' idx_MSAVI = ''ndvi''"
    by (simp add: color_table_def idx_MSAVI_def)
  have "emit recording True idx_NDVI ''NDVI'' ''out_NDVI'' ''f'' []
       = (True, [Mapcalc ''out_NDVI = f'',
                 Mapcalc ''out_NDVI_temp = (out_NDVI - -1) / (1 - -1)'',
                 Rename ''out_NDVI_temp'' ''out_NDVI'',
                 Colors ''out_NDVI'' ''ndvi''])"
    using emit_normalization [of idx_NDVI "- 1" 1 "''NDVI''" "''out_NDVI''" "''f''" "[]"] n1 c1
    by simp
  moreover have "emit recording True idx_MSAVI ''MSAVI'' ''out_MSAVI'' ''f'' []
       = (True, [Mapcalc ''out_MSAVI = f'', Colors ''out_MSAVI'' ''ndvi''])"
    using emit_normalization [of idx_MSAVI 0 0 "''MSAVI''" "''out_MSAVI''" "''f''" "[]"] n2 c2
    by simp
  moreover have "mvalue (\<lambda>v. 0) (norm_expr ''out_NDVI'' (- 1) 1) = 1 / 2"
    using emit_normalization [of idx_NDVI "- 1" 1 "''NDVI''" "''out_NDVI''" "''f''" "[]" "\<lambda>v. 0"]
    by simp
  ultimately show ?thesis using n1 n2 by simp
qed

section \<open>Listing by theme\<close>

lemma list_indices_theme:
  "th \<noteq> [] \<Longrightarrow>
     list_indices db (Some th) = filter (\<lambda>index. theme index = th) (map snd (sort_key fst db))"
  by (simp add: list_indices_def truthy_def filter_map comp_def case_prod_unfold)

lemma list_indices_all:
  "list_indices db None = map snd (sort_key fst db)"
  "list_indices db (Some []) = map snd (sort_key fst db)"
  by (simp_all add: list_indices_def truthy_def)

lemma mset_filter_split:
  "t \<notin> set ths \<Longrightarrow>
     mset (filter (\<lambda>i. f i = t) xs) + mset (filter (\<lambda>i. f i \<in> set ths) xs)
       = mset (filter (\<lambda>i. f i = t \<or> f i \<in> set ths) xs)"
  by (auto simp: multiset_eq_iff)

lemma mset_concat_filter:
  "distinct ths \<Longrightarrow>
     mset (concat (map (\<lambda>t. filter (\<lambda>i. f i = t) xs) ths))
       = mset (filter (\<lambda>i. f i \<in> set ths) xs)"
proof (induction ths)
  case Nil
  show ?case by simp
next
  case (Cons t ths)
  then have "mset (concat (map (\<lambda>t. filter (\<lambda>i. f i = t) xs) (t # ths)))
      = mset (filter (\<lambda>i. f i = t) xs) + mset (filter (\<lambda>i. f i \<in> set ths) xs)"
    by simp
  also have "\<dots> = mset (filter (\<lambda>i. f i = t \<or> f i \<in> set ths) xs)"
  proof (rule mset_filter_split)
    from Cons.prems show "t \<notin> set ths" by simp
  qed
  finally show ?case by simp
qed

lemma get_themes_props:
  "set (get_themes db) = theme ` snd ` set db" "distinct (get_themes db)" "sorted (get_themes db)"
  by (auto simp: get_themes_def split_beta image_iff)

lemma themes_partition:
  assumes "[] \<notin> theme ` snd ` set db"
  shows "mset (concat (map (\<lambda>t. list_indices db (Some t)) (get_themes db))) = mset (map snd db)"
proof -
  let ?xs = "map snd (sort_key fst db)"
  have "map (\<lambda>t. list_indices db (Some t)) (get_themes db)
      = map (\<lambda>t. filter (\<lambda>index. theme index = t) ?xs) (get_themes db)"
  proof (rule map_cong [OF refl])
    fix t assume "t \<in> set (get_themes db)"
    with assms have "t \<noteq> []" by (metis get_themes_props(1))
    then show "list_indices db (Some t) = filter (\<lambda>index. theme index = t) ?xs"
      by (rule list_indices_theme)
  qed
  then have "mset (concat (map (\<lambda>t. list_indices db (Some t)) (get_themes db)))
      = mset (filter (\<lambda>i. theme i \<in> set (get_themes db)) ?xs)"
    by (simp only: mset_concat_filter [OF get_themes_props(2)])
  also have "filter (\<lambda>i. theme i \<in> set (get_themes db)) ?xs = ?xs"
    by (rule filter_True) (auto simp: get_themes_props(1))
  also have "mset ?xs = mset (map snd db)"
    by (metis mset_map mset_sort)
  finally show ?thesis .
qed

lemma sorted_names:
  assumes "\<forall>(k, index) \<in> set db. name index = k"
  shows "sorted (map name (list_indices db t))"
proof -
  have "map name (list_indices db t)
      = map fst (filter (\<lambda>(nm, index). \<not> (truthy t \<and> Some (theme index) \<noteq> t)) (sort_key fst db))"
    using assms by (auto simp: list_indices_def)
  moreover have "sorted (map fst (sort_key fst db))" by (rule sorted_sort_key)
  ultimately show ?thesis by (simp add: sorted_filter)
qed

lemma names_are_keys: "\<forall>(k, index) \<in> set indices_db. name index = k"
proof -
  have "list_all (\<lambda>(k, index). name index = k) indices_db" by code_simp
  then show ?thesis by (simp add: list_all_iff)
qed

lemma themes_nonempty: "[] \<notin> theme ` snd ` set indices_db"
proof -
  have "list_all (\<lambda>(k, index). theme index \<noteq> []) indices_db" by code_simp
  then show ?thesis by (auto simp: list_all_iff)
qed

lemma distinct_keys: "distinct (map fst indices_db)"
  by (simp add: indices_db_def)

lemma distinct_entries: "distinct (map snd indices_db)"
proof -
  have eq: "map name (map snd indices_db) = map fst indices_db"
    unfolding map_map by (rule map_cong [OF refl]) (use names_are_keys in auto)
  have "distinct (map name (map snd indices_db))"
    unfolding eq by (rule distinct_keys)
  then show ?thesis by (rule distinct_map [THEN iffD1, THEN conjunct1])
qed

lemma water_entries:
  "filter (\<lambda>i. theme i = ''water'') (map snd indices_db) = [idx_NDWI, idx_MNDWI, idx_NDMI]"
  by code_simp

lemma water_names:
  "map name (list_indices indices_db (Some ''water'')) = [''MNDWI'', ''NDMI'', ''NDWI'']"
proof -
  let ?L = "list_indices indices_db (Some ''water'')"
  have "set ?L = set (filter (\<lambda>i. theme i = ''water'') (map snd indices_db))"
    by (auto simp: list_indices_theme)
  then have s: "set ?L = {idx_NDWI, idx_MNDWI, idx_NDMI}"
    by (simp add: water_entries)
  have "distinct (map snd (sort_key fst indices_db))"
    using distinct_entries by (metis mset_eq_imp_distinct_iff mset_map mset_sort)
  then have dl: "distinct ?L" by (simp add: list_indices_theme)
  have "inj_on name {idx_NDWI, idx_MNDWI, idx_NDMI}"
    by (simp add: idx_NDWI_def idx_MNDWI_def idx_NDMI_def)
  with dl s have d: "distinct (map name ?L)" by (simp add: distinct_map)
  have sn: "set (map name ?L) = set [''MNDWI'', ''NDMI'', ''NDWI'']"
    by (auto simp: s idx_NDWI_def idx_MNDWI_def idx_NDMI_def)
  have so: "sorted (map name ?L)" by (rule sorted_names [OF names_are_keys])
  have "sorted [''MNDWI'', ''NDMI'', ''NDWI''] \<and> distinct [''MNDWI'', ''NDMI'', ''NDWI'']"
    by code_simp
  with so d sn show ?thesis
    by (metis sorted_distinct_set_unique)
qed

text \<open>
  Claim C8. On the database of the program, for a theme given as a non-empty string (the
  empty string is the value of an option that was not given and counts as no theme),
  \<open>list_indices\<close> returns exactly the entries of that theme, each once, ordered by name.
  \<open>get_themes\<close> is the sorted list, without repetition, of the themes that occur. The lists
  of all these themes together hold every entry of the database exactly once, and
  \<open>list_indices\<close> without a theme returns every entry, ordered by name.
\<close>

theorem list_indices_partition:
  assumes "th \<noteq> []"
  shows "set (list_indices indices_db (Some th)) = {index \<in> snd ` set indices_db. theme index = th}
       \<and> sorted (map name (list_indices indices_db (Some th)))
       \<and> distinct (list_indices indices_db (Some th))
       \<and> set (get_themes indices_db) = theme ` snd ` set indices_db
       \<and> sorted (get_themes indices_db) \<and> distinct (get_themes indices_db)
       \<and> mset (concat (map (\<lambda>t. list_indices indices_db (Some t)) (get_themes indices_db)))
           = mset (map snd indices_db)
       \<and> distinct (concat (map (\<lambda>t. list_indices indices_db (Some t)) (get_themes indices_db)))
       \<and> mset (list_indices indices_db None) = mset (map snd indices_db)
       \<and> sorted (map name (list_indices indices_db None))"
proof -
  let ?xs = "map snd (sort_key fst indices_db)"
  have m: "mset ?xs = mset (map snd indices_db)" by (metis mset_map mset_sort)
  with distinct_entries have dx: "distinct ?xs" by (metis mset_eq_imp_distinct_iff)
  have 1: "set (list_indices indices_db (Some th)) = {index \<in> snd ` set indices_db. theme index = th}"
    using assms by (auto simp: list_indices_theme)
  have 2: "distinct (list_indices indices_db (Some th))"
    using assms dx by (simp add: list_indices_theme)
  have 3: "mset (concat (map (\<lambda>t. list_indices indices_db (Some t)) (get_themes indices_db)))
           = mset (map snd indices_db)"
    by (rule themes_partition [OF themes_nonempty])
  with distinct_entries
  have 4: "distinct (concat (map (\<lambda>t. list_indices indices_db (Some t)) (get_themes indices_db)))"
    by (metis mset_eq_imp_distinct_iff)
  have 5: "mset (list_indices indices_db None) = mset (map snd indices_db)"
    using m by (simp add: list_indices_all)
  from 1 2 3 4 5 sorted_names [OF names_are_keys] get_themes_props [of indices_db]
  show ?thesis by blast
qed

theorem list_indices_partition_witness:
  "''water'' \<noteq> []
   \<and> set (list_indices indices_db (Some ''water'')) = {idx_NDWI, idx_MNDWI, idx_NDMI}
   \<and> sorted (map name (list_indices indices_db (Some ''water'')))
   \<and> map name (list_indices indices_db (Some ''water'')) = [''MNDWI'', ''NDMI'', ''NDWI'']"
proof -
  have ne: "''water'' \<noteq> []" by simp
  from list_indices_partition [OF ne]
  have so: "sorted (map name (list_indices indices_db (Some ''water'')))"
    by blast
  from list_indices_partition [OF ne]
  have "set (list_indices indices_db (Some ''water''))
          = {index \<in> snd ` set indices_db. theme index = ''water''}"
    by blast
  also have "{index \<in> snd ` set indices_db. theme index = ''water''}
          = set (filter (\<lambda>i. theme i = ''water'') (map snd indices_db))"
    by auto
  finally have "set (list_indices indices_db (Some ''water'')) = {idx_NDWI, idx_MNDWI, idx_NDMI}"
    by (simp add: water_entries)
  with ne so water_names show ?thesis by blast
qed

section \<open>Selection of the indices\<close>

lemma lower_char_a: "lower_char c = CHR ''a'' \<longleftrightarrow> c = CHR ''a'' \<or> c = CHR ''A''"
  by (simp add: lower_char_def lower_letters_def upper_letters_def)

lemma lower_char_l: "lower_char c = CHR ''l'' \<longleftrightarrow> c = CHR ''l'' \<or> c = CHR ''L''"
  by (simp add: lower_char_def lower_letters_def upper_letters_def)

lemma lower_all_iff:
  "lower s = ''all'' \<longleftrightarrow>
     s \<in> set [''all'', ''alL'', ''aLl'', ''aLL'', ''All'', ''AlL'', ''ALl'', ''ALL'']"
proof
  assume "lower s = ''all''"
  then obtain a b c where s: "s = [a, b, c]" and "lower_char a = CHR ''a''"
    "lower_char b = CHR ''l''" "lower_char c = CHR ''l''"
    by (auto simp: lower_def map_eq_Cons_conv)
  then show "s \<in> set [''all'', ''alL'', ''aLl'', ''aLL'', ''All'', ''AlL'', ''ALl'', ''ALL'']"
    by (auto simp: lower_char_a lower_char_l)
next
  assume "s \<in> set [''all'', ''alL'', ''aLl'', ''aLL'', ''All'', ''AlL'', ''ALl'', ''ALL'']"
  then show "lower s = ''all''"
    by (auto simp: lower_def lower_char_a lower_char_l)
qed

text \<open>
  Claim C10. When the option \<open>theme\<close> is given (a non-empty string), the selected names are
  the names of the indices of that theme, whatever the option \<open>indices\<close> holds, the literal
  \<open>all\<close> included. The option \<open>indices\<close> is read only when no theme is given: a value that
  is \<open>all\<close> in any mix of upper and lower case selects every key of the database; any other
  value is split at its commas and every piece is stripped of surrounding white space and
  put in upper case (for pieces without surrounding white space: every piece is put in upper
  case).
\<close>

theorem select_indices_precedence:
  "(theme_opt \<noteq> [] \<longrightarrow>
      select_indices db theme_opt indices_str = map name (list_indices db (Some theme_opt))
      \<and> select_indices db theme_opt indices_str = select_indices db theme_opt other_str)
   \<and> (theme_opt = [] \<and> lower indices_str = ''all'' \<longrightarrow>
        select_indices db theme_opt indices_str = map fst db)
   \<and> (theme_opt = [] \<and> lower indices_str \<noteq> ''all'' \<longrightarrow>
        select_indices db theme_opt indices_str
          = map (\<lambda>piece. upper (strip piece)) (split CHR '','' indices_str))
   \<and> (theme_opt = [] \<and> lower indices_str \<noteq> ''all''
        \<and> (\<forall>piece \<in> set (split CHR '','' indices_str). strip piece = piece) \<longrightarrow>
        select_indices db theme_opt indices_str = map upper (split CHR '','' indices_str))
   \<and> (lower indices_str = ''all'' \<longleftrightarrow>
        indices_str \<in> set [''all'', ''alL'', ''aLl'', ''aLL'', ''All'', ''AlL'', ''ALl'', ''ALL''])
   \<and> select_indices indices_db ''water'' ''all'' = [''MNDWI'', ''NDMI'', ''NDWI'']
   \<and> select_indices indices_db ''water'' ''NDVI,EVI'' = [''MNDWI'', ''NDMI'', ''NDWI'']
   \<and> select_indices indices_db [] ''All'' = map fst indices_db
   \<and> select_indices indices_db [] ''ndvi, evi'' = [''NDVI'', ''EVI'']"
proof -
  have w: "select_indices indices_db ''water'' x = [''MNDWI'', ''NDMI'', ''NDWI'']" for x
    by (simp add: select_indices_def water_names)
  have a: "select_indices indices_db [] ''All'' = map fst indices_db"
    by (simp add: select_indices_def lower_all_iff)
  have "lower ''ndvi, evi'' \<noteq> ''all''" by (simp add: lower_all_iff)
  moreover have "map (\<lambda>piece. upper (strip piece)) (split CHR '','' ''ndvi, evi'') = [''NDVI'', ''EVI'']"
    by code_simp
  ultimately have e: "select_indices indices_db [] ''ndvi, evi'' = [''NDVI'', ''EVI'']"
    by (simp add: select_indices_def)
  have s: "theme_opt = [] \<and> lower indices_str \<noteq> ''all''
        \<and> (\<forall>piece \<in> set (split CHR '','' indices_str). strip piece = piece) \<longrightarrow>
        select_indices db theme_opt indices_str = map upper (split CHR '','' indices_str)"
    by (simp add: select_indices_def)
  show ?thesis
    using w [of "''all''"] w [of "''NDVI,EVI''"] a e s lower_all_iff [of indices_str]
    by (simp add: select_indices_def)
qed

theorem select_indices_precedence_witness:
  "''soil'' \<noteq> []
   \<and> select_indices indices_db ''soil'' ''NDVI'' = select_indices indices_db ''soil'' ''all''
   \<and> lower ''ALL'' = ''all''
   \<and> select_indices indices_db [] ''ALL'' = map fst indices_db
   \<and> lower ''savi,Gndvi'' \<noteq> ''all''
   \<and> split CHR '','' ''savi,Gndvi'' = [''savi'', ''Gndvi'']
   \<and> strip ''savi'' = ''savi'' \<and> strip ''Gndvi'' = ''Gndvi''
   \<and> select_indices indices_db [] ''savi,Gndvi'' = [''SAVI'', ''GNDVI'']"
proof -
  note spec = select_indices_precedence
  have ne: "''soil'' \<noteq> []" by simp
  have la: "lower ''ALL'' = ''all''" by code_simp
  have ln: "lower ''savi,Gndvi'' \<noteq> ''all''" by code_simp
  have sp: "split CHR '','' ''savi,Gndvi'' = [''savi'', ''Gndvi'']" by code_simp
  have st': "strip ''savi'' = ''savi''" "strip ''Gndvi'' = ''Gndvi''" by code_simp+
  then have st: "\<forall>piece \<in> set (split CHR '','' ''savi,Gndvi''). strip piece = piece"
    unfolding sp by simp
  have up: "upper ''savi'' = ''SAVI''" "upper ''Gndvi'' = ''GNDVI''" by code_simp+
  have 1: "select_indices indices_db ''soil'' ''NDVI'' = select_indices indices_db ''soil'' ''all''"
    using spec [where theme_opt = "''soil''" and db = indices_db and indices_str = "''NDVI''"
        and other_str = "''all''"] ne by blast
  have 2: "select_indices indices_db [] ''ALL'' = map fst indices_db"
    using spec [where theme_opt = "[]" and db = indices_db and indices_str = "''ALL''"] la
    by blast
  have 3: "select_indices indices_db [] ''savi,Gndvi'' = map upper (split CHR '','' ''savi,Gndvi'')"
    using spec [where theme_opt = "[]" and db = indices_db and indices_str = "''savi,Gndvi''"]
      ln st by blast
  from ne 1 la 2 ln st' 3 show ?thesis by (simp add: sp up)
qed

end
